theory Spec2Isabelle
  imports Main
begin

section \<open>Go library functions used by the provider\<close>

text \<open>
  Go strings are byte sequences; \<^typ>\<open>string\<close> is a list of 8-bit characters, so a
  byte \<open>c\<close> is a \<^typ>\<open>char\<close> and its numeric value is \<open>of_char c\<close>.
  A Go \<open>error\<close> return is an \<^typ>\<open>'a option\<close> (\<open>None\<close> is \<open>nil\<close>) next to the
  returned values, as in the source.
\<close>

datatype error =
    Errorf string
  | EscapeError string
  | ServiceError string

text \<open>
  A pointer dereference of \<open>nil\<close> and a failed type assertion panic. A function that
  polls the service is run for a bounded number of polls; \<open>Unfinished\<close> says that it
  was still polling when the bound was reached.
\<close>

datatype 'a outcome = Returns 'a | Panics | Unfinished

subsection \<open>net/url: PathEscape and PathUnescape\<close>

definition code :: "char \<Rightarrow> nat" where
  "code c = of_char c"

text \<open>\<open>shouldEscape(c, encodePathSegment)\<close>: the only mode the source reaches.\<close>

definition shouldEscape :: "char \<Rightarrow> bool" where
  "shouldEscape c =
     (if (97 \<le> code c \<and> code c \<le> 122) \<or> (65 \<le> code c \<and> code c \<le> 90)
          \<or> (48 \<le> code c \<and> code c \<le> 57) then False
      else if c \<in> set ''-_.~'' then False
      else if c \<in> set ''$&+,/:;=?@'' then c \<in> set ''/;,?''
      else True)"

definition upperhex :: string where
  "upperhex = ''0123456789ABCDEF''"

definition ishex :: "char \<Rightarrow> bool" where
  "ishex c = ((48 \<le> code c \<and> code c \<le> 57) \<or> (97 \<le> code c \<and> code c \<le> 102)
               \<or> (65 \<le> code c \<and> code c \<le> 70))"

definition unhex :: "char \<Rightarrow> nat" where
  "unhex c =
     (if 48 \<le> code c \<and> code c \<le> 57 then code c - 48
      else if 97 \<le> code c \<and> code c \<le> 102 then code c - 97 + 10
      else if 65 \<le> code c \<and> code c \<le> 70 then code c - 65 + 10
      else 0)"

text \<open>
  \<open>escape(s, encodePathSegment)\<close>: every byte that must be escaped becomes \<open>%\<close> and
  its two upper-case hexadecimal digits (\<open>upperhex[c>>4]\<close>, \<open>upperhex[c&15]\<close>); no byte
  becomes \<open>+\<close> in this mode.
\<close>

definition escape_byte :: "char \<Rightarrow> string" where
  "escape_byte c =
     (if shouldEscape c
      then [CHR ''%'', upperhex ! (code c div 16), upperhex ! (code c mod 16)]
      else [c])"

definition PathEscape :: "string \<Rightarrow> string" where
  "PathEscape s = concat (map escape_byte s)"

text \<open>
  \<open>unescape(s, encodePathSegment)\<close>. Go validates every \<open>%\<close> in a first pass and
  decodes in a second; the first malformed escape, read from the left, is the error and
  the returned string is then empty. One pass from the left gives the same pair.
  \<open>unhex(a)<<4 | unhex(b)\<close> is \<open>16 * unhex a + unhex b\<close>, both digits being below 16.
\<close>

fun unescape :: "string \<Rightarrow> string \<times> error option" where
  "unescape [] = ([], None)"
| "unescape (c # s) =
     (if c = CHR ''%'' then
        (case s of
           a # b # r \<Rightarrow>
             if ishex a \<and> ishex b then
               (case unescape r of
                  (t, None) \<Rightarrow> (char_of (unhex a * 16 + unhex b) # t, None)
                | (t, Some e) \<Rightarrow> ([], Some e))
             else ([], Some (EscapeError (take 3 (c # s))))
         | _ \<Rightarrow> ([], Some (EscapeError (take 3 (c # s)))))
      else
        (case unescape s of
           (t, None) \<Rightarrow> (c # t, None)
         | (t, Some e) \<Rightarrow> ([], Some e)))"

definition PathUnescape :: "string \<Rightarrow> string \<times> error option" where
  "PathUnescape s = unescape s"

subsection \<open>strings.Split and regexp.MatchString\<close>

text \<open>
  \<open>strings.Split(s, sep)\<close> for a one-byte separator, as the source calls it: the
  pieces between the separators, one more than there are separators (the empty string
  gives one empty piece).
\<close>

fun Split :: "string \<Rightarrow> char \<Rightarrow> string list" where
  "Split [] sep = [[]]"
| "Split (c # s) sep =
     (if c = sep then [] # Split s sep
      else (case Split s sep of p # ps \<Rightarrow> (c # p) # ps | [] \<Rightarrow> [[c]]))"

text \<open>
  The regular expressions of the source are sequences of literal text and \<open>.*\<close>.
  In Go's syntax \<open>.\<close> matches any character but the newline, and \<open>MatchString\<close>
  looks for a match anywhere in the text.
\<close>

datatype regexp_piece = Lit string | AnyStar

fun match_here :: "string \<Rightarrow> regexp_piece list \<Rightarrow> bool" where
  "match_here s [] = True"
| "match_here s (Lit l # ps) = (take (length l) s = l \<and> match_here (drop (length l) s) ps)"
| "match_here [] (AnyStar # ps) = match_here [] ps"
| "match_here (c # s) (AnyStar # ps) =
     (match_here (c # s) ps \<or> (c \<noteq> CHR 0x0A \<and> match_here s (AnyStar # ps)))"

fun match_anywhere :: "string \<Rightarrow> regexp_piece list \<Rightarrow> bool" where
  "match_anywhere [] ps = match_here [] ps"
| "match_anywhere (c # s) ps = (match_here (c # s) ps \<or> match_anywhere s ps)"

definition MatchString :: "regexp_piece list \<Rightarrow> string \<Rightarrow> bool \<times> error option" where
  "MatchString pattern s = (match_anywhere s pattern, None)"

subsection \<open>strings.Contains and strconv.Itoa\<close>

fun Contains :: "string \<Rightarrow> string \<Rightarrow> bool" where
  "Contains [] substr = (substr = [])"
| "Contains (c # s) substr =
     (take (length substr) (c # s) = substr \<or> Contains s substr)"

text \<open>
  \<open>strconv.Itoa\<close>: the decimal digits, most significant first, after a minus sign for a
  negative number. Go's \<open>int\<close> is a machine integer; the source only prints it and never
  computes with it, so it is an \<^typ>\<open>int\<close> here.
\<close>

fun digits :: "nat \<Rightarrow> string" where
  "digits n =
     (if n < 10 then [''0123456789'' ! n]
      else digits (n div 10) @ [''0123456789'' ! (n mod 10)])"

definition Itoa :: "int \<Rightarrow> string" where
  "Itoa i = (if i < 0 then CHR ''-'' # digits (nat (- i)) else digits (nat i))"

section \<open>Composite identifiers of a load balancer backend\<close>

definition getBackendCompositeId :: "string \<Rightarrow> string \<Rightarrow> string \<Rightarrow> string" where
  "getBackendCompositeId backendName backendSetName loadBalancerId =
     (let backendName = PathEscape backendName;
          backendSetName = PathEscape backendSetName;
          loadBalancerId = PathEscape loadBalancerId;
          compositeId = ''loadBalancers/'' @ loadBalancerId @ ''/backendSets/'' @ backendSetName
                          @ ''/backends/'' @ backendName
      in compositeId)"

definition compositeIdPattern :: "regexp_piece list" where
  "compositeIdPattern =
     [Lit ''loadBalancers/'', AnyStar, Lit ''/backendSets/'', AnyStar, Lit ''/backends/'', AnyStar]"

text \<open>The result is \<open>(backendName, backendSetName, loadBalancerId, err)\<close>.\<close>

definition parseBackendCompositeId :: "string \<Rightarrow> string \<times> string \<times> string \<times> error option" where
  "parseBackendCompositeId compositeId =
     (let parts = Split compositeId (CHR ''/'');
          match = fst (MatchString compositeIdPattern compositeId)
      in if \<not> match \<or> length parts \<noteq> 6
         then ('''', '''', '''',
               Some (Errorf (''illegal compositeId '' @ compositeId @ '' encountered'')))
         else (let loadBalancerId = fst (PathUnescape (parts ! 1));
                   backendSetName = fst (PathUnescape (parts ! 3));
                   backendName = fst (PathUnescape (parts ! 5))
               in (backendName, backendSetName, loadBalancerId, None)))"

section \<open>The generic resource representation\<close>

text \<open>
  \<open>schema.ResourceData\<close> holds the resource as key/value pairs, each value an
  \<open>interface{}\<close> of the type its schema entry names, and the resource identifier.
\<close>

datatype "value" =
    VNil
  | VString string
  | VBool bool
  | VInt int
  | VMap "(string \<times> string) list"

datatype ValueType = TypeString | TypeBool | TypeInt | TypeMap

record Schema =
  Type :: ValueType
  Required :: bool
  Optional :: bool
  Computed :: bool
  ForceNew :: bool
  Default :: "value option"
  DiffSuppressFunc :: "string option"
  Elem :: "ValueType option"

text \<open>A schema entry of type \<open>t\<close> with every other field at its zero value.\<close>

definition plain :: "ValueType \<Rightarrow> Schema" where
  "plain t = \<lparr>Type = t, Required = False, Optional = False, Computed = False,
              ForceNew = False, Default = None, DiffSuppressFunc = None, Elem = None\<rparr>"

datatype crud_func =
    createBackend | readBackend | updateBackend | deleteBackend
  | createCoreDrgRouteDistribution | readCoreDrgRouteDistribution
  | updateCoreDrgRouteDistribution | deleteCoreDrgRouteDistribution

text \<open>
  \<open>schema.Resource\<close>: the importer's state function and the timeouts by name, the four
  entry points, named by the function each refers to, and the schema as the source lists it.
\<close>

record Resource =
  Importer_State :: string
  Timeouts :: string
  Create_func :: crud_func
  Read_func :: crud_func
  Update_func :: crud_func
  Delete_func :: crud_func
  Schema_map :: "(string \<times> Schema) list"

definition BackendResource :: Resource where
  "BackendResource =
     \<lparr>Importer_State = ''ImportStatePassthrough'',
      Timeouts = ''DefaultTimeout'',
      Create_func = createBackend,
      Read_func = readBackend,
      Update_func = updateBackend,
      Delete_func = deleteBackend,
      Schema_map =
        [(''backendset_name'', (plain TypeString)\<lparr>Required := True, ForceNew := True\<rparr>),
         (''ip_address'', (plain TypeString)\<lparr>Required := True, ForceNew := True\<rparr>),
         (''load_balancer_id'', (plain TypeString)\<lparr>Required := True, ForceNew := True\<rparr>),
         (''port'', (plain TypeInt)\<lparr>Required := True, ForceNew := True\<rparr>),
         (''backup'', (plain TypeBool)\<lparr>Optional := True, Default := Some (VBool False)\<rparr>),
         (''drain'', (plain TypeBool)\<lparr>Optional := True, Computed := True\<rparr>),
         (''offline'', (plain TypeBool)\<lparr>Optional := True, Computed := True\<rparr>),
         (''weight'', (plain TypeInt)\<lparr>Optional := True, Computed := True\<rparr>),
         (''name'', (plain TypeString)\<lparr>Computed := True\<rparr>),
         (''state'', (plain TypeString)\<lparr>Computed := True\<rparr>)]\<rparr>"

record ResourceData =
  rd_attrs :: "string \<rightharpoonup> value"
  rd_id :: string

fun has_type :: "value \<Rightarrow> ValueType \<Rightarrow> bool" where
  "has_type (VString x) TypeString = True"
| "has_type (VBool x) TypeBool = True"
| "has_type (VInt x) TypeInt = True"
| "has_type (VMap x) TypeMap = True"
| "has_type v t = False"

definition zero_value :: "ValueType \<Rightarrow> value" where
  "zero_value t =
     (case t of TypeString \<Rightarrow> VString [] | TypeBool \<Rightarrow> VBool False
      | TypeInt \<Rightarrow> VInt 0 | TypeMap \<Rightarrow> VMap [])"

text \<open>
  The data of a backend resource is read against the schema of \<open>BackendResource\<close>:
  a stored value has the type of its schema entry, a key that is not set reads as the
  zero value of that type, and a key outside the schema reads as \<open>nil\<close>.
\<close>

definition conforms :: "ResourceData \<Rightarrow> bool" where
  "conforms d =
     list_all (\<lambda>(key, sch). case rd_attrs d key of None \<Rightarrow> True
                                | Some v \<Rightarrow> has_type v (Type sch))
       (Schema_map BackendResource)"

definition zero_of :: "string \<Rightarrow> value" where
  "zero_of key =
     (case map_of (Schema_map BackendResource) key of
        Some sch \<Rightarrow> zero_value (Type sch)
      | None \<Rightarrow> VNil)"

definition D_Get :: "ResourceData \<Rightarrow> string \<Rightarrow> value" where
  "D_Get d key = (case rd_attrs d key of Some v \<Rightarrow> v | None \<Rightarrow> zero_of key)"

definition D_GetOkExists :: "ResourceData \<Rightarrow> string \<Rightarrow> value \<times> bool" where
  "D_GetOkExists d key =
     (case rd_attrs d key of Some v \<Rightarrow> (v, True) | None \<Rightarrow> (zero_of key, False))"

definition D_Set :: "ResourceData \<Rightarrow> string \<Rightarrow> value \<Rightarrow> ResourceData" where
  "D_Set d key v = d\<lparr>rd_attrs := (rd_attrs d)(key \<mapsto> v)\<rparr>"

definition D_Id :: "ResourceData \<Rightarrow> string" where
  "D_Id d = rd_id d"

definition D_SetId :: "ResourceData \<Rightarrow> string \<Rightarrow> ResourceData" where
  "D_SetId d v = d\<lparr>rd_id := v\<rparr>"

text \<open>The type assertions \<open>v.(string)\<close>, \<open>v.(bool)\<close> and \<open>v.(int)\<close>.\<close>

definition as_string :: "value \<Rightarrow> string outcome" where
  "as_string v = (case v of VString x \<Rightarrow> Returns x | _ \<Rightarrow> Panics)"

definition as_bool :: "value \<Rightarrow> bool outcome" where
  "as_bool v = (case v of VBool x \<Rightarrow> Returns x | _ \<Rightarrow> Panics)"

definition as_int :: "value \<Rightarrow> int outcome" where
  "as_int v = (case v of VInt x \<Rightarrow> Returns x | _ \<Rightarrow> Panics)"

definition and_then :: "'a outcome \<Rightarrow> ('a \<Rightarrow> 'b outcome) \<Rightarrow> 'b outcome" where
  "and_then r f = (case r of Returns x \<Rightarrow> f x | Panics \<Rightarrow> Panics | Unfinished \<Rightarrow> Unfinished)"

section \<open>The load balancer SDK\<close>

text \<open>
  Modelled from the spec: \<open>getRetryPolicy\<close> is not among the sources. The policy it
  returns is kept as the two arguments it is computed from.
\<close>

datatype RetryPolicy = RetryPolicy bool string

definition getRetryPolicy :: "bool \<Rightarrow> string \<Rightarrow> RetryPolicy option" where
  "getRetryPolicy disableNotFoundRetries service = Some (RetryPolicy disableNotFoundRetries service)"

text \<open>
  Modelled from the spec: the SDK's declaration of the work request lifecycle states is not
  among the sources. Like the SDK's other enums it is a string type; its four constants
  that the source names are given the values the service sends.
\<close>

type_synonym WorkRequestLifecycleStateEnum = string

definition WorkRequestLifecycleStateAccepted :: WorkRequestLifecycleStateEnum where
  "WorkRequestLifecycleStateAccepted = ''ACCEPTED''"

definition WorkRequestLifecycleStateInProgress :: WorkRequestLifecycleStateEnum where
  "WorkRequestLifecycleStateInProgress = ''IN_PROGRESS''"

definition WorkRequestLifecycleStateFailed :: WorkRequestLifecycleStateEnum where
  "WorkRequestLifecycleStateFailed = ''FAILED''"

definition WorkRequestLifecycleStateSucceeded :: WorkRequestLifecycleStateEnum where
  "WorkRequestLifecycleStateSucceeded = ''SUCCEEDED''"

record WorkRequest =
  Id :: "string option"
  LifecycleState :: WorkRequestLifecycleStateEnum
  Message :: "string option"

record Backend =
  Backup :: "bool option"
  Drain :: "bool option"
  IpAddress :: "string option"
  Name :: "string option"
  Offline :: "bool option"
  Port :: "int option"
  Weight :: "int option"

record CreateBackendRequest =
  BackendSetName :: "string option"
  Backup :: "bool option"
  Drain :: "bool option"
  IpAddress :: "string option"
  LoadBalancerId :: "string option"
  Offline :: "bool option"
  Port :: "int option"
  Weight :: "int option"
  RetryPolicy :: "RetryPolicy option"

record CreateBackendResponse =
  OpcWorkRequestId :: "string option"

record DeleteBackendRequest =
  BackendName :: "string option"
  BackendSetName :: "string option"
  LoadBalancerId :: "string option"
  RetryPolicy :: "RetryPolicy option"

record DeleteBackendResponse =
  OpcWorkRequestId :: "string option"

record GetWorkRequestRequest =
  WorkRequestId :: "string option"
  RetryPolicy :: "RetryPolicy option"

record GetWorkRequestResponse =
  WorkRequest :: WorkRequest

text \<open>
  The service is outside the program. A call's answer may depend on every call made before
  it, so each operation of the client is a function of the calls so far and of the request,
  and returns the response and the error as the Go method does.
\<close>

datatype api_call =
    CallCreateBackend CreateBackendRequest
  | CallDeleteBackend DeleteBackendRequest
  | CallGetWorkRequest GetWorkRequestRequest

record LoadBalancerClient =
  CreateBackend :: "api_call list \<Rightarrow> CreateBackendRequest \<Rightarrow> CreateBackendResponse \<times> error option"
  DeleteBackend :: "api_call list \<Rightarrow> DeleteBackendRequest \<Rightarrow> DeleteBackendResponse \<times> error option"
  GetWorkRequest :: "api_call list \<Rightarrow> GetWorkRequestRequest \<Rightarrow> GetWorkRequestResponse \<times> error option"

section \<open>The load balancer backend resource\<close>

record BackendResourceCrud =
  D :: ResourceData
  Client :: LoadBalancerClient
  Res :: "Backend option"
  DisableNotFoundRetries :: bool
  WorkRequest :: "WorkRequest option"

definition buildID :: "BackendResourceCrud \<Rightarrow> string outcome" where
  "buildID s =
     and_then (as_string (D_Get (D s) ''ip_address'')) (\<lambda>ip_address.
     and_then (as_int (D_Get (D s) ''port'')) (\<lambda>port.
     Returns (ip_address @ '':'' @ Itoa port)))"

definition ID :: "BackendResourceCrud \<Rightarrow> string outcome" where
  "ID s =
     (case BackendResourceCrud.WorkRequest s of
        Some wr \<Rightarrow>
          if LifecycleState wr = WorkRequestLifecycleStateSucceeded then
            and_then (buildID s) (\<lambda>backendName.
            and_then (as_string (D_Get (D s) ''backendset_name'')) (\<lambda>backendSetName.
            and_then (as_string (D_Get (D s) ''load_balancer_id'')) (\<lambda>loadBalancerId.
            Returns (getBackendCompositeId backendName backendSetName loadBalancerId))))
          else (case Id wr of Some i \<Rightarrow> Returns i | None \<Rightarrow> Panics)
      | None \<Rightarrow> Returns '''')"



definition DeletedPending :: "BackendResourceCrud \<Rightarrow> string list" where
  "DeletedPending s = [WorkRequestLifecycleStateInProgress, WorkRequestLifecycleStateAccepted]"

definition DeletedTarget :: "BackendResourceCrud \<Rightarrow> string list" where
  "DeletedTarget s = [WorkRequestLifecycleStateSucceeded, WorkRequestLifecycleStateFailed]"

text \<open>
  The idiom \<open>if v, ok := s.D.GetOkExists(key); ok { tmp := v.(T); request.F = &tmp }\<close>
  on a field that is still \<open>nil\<close>: the new value of the field.
\<close>

definition GetOkExists_string :: "ResourceData \<Rightarrow> string \<Rightarrow> string option outcome" where
  "GetOkExists_string d key =
     (case D_GetOkExists d key of
        (v, ok) \<Rightarrow> if ok then and_then (as_string v) (\<lambda>tmp. Returns (Some tmp)) else Returns None)"

definition GetOkExists_bool :: "ResourceData \<Rightarrow> string \<Rightarrow> bool option outcome" where
  "GetOkExists_bool d key =
     (case D_GetOkExists d key of
        (v, ok) \<Rightarrow> if ok then and_then (as_bool v) (\<lambda>tmp. Returns (Some tmp)) else Returns None)"

definition GetOkExists_int :: "ResourceData \<Rightarrow> string \<Rightarrow> int option outcome" where
  "GetOkExists_int d key =
     (case D_GetOkExists d key of
        (v, ok) \<Rightarrow> if ok then and_then (as_int v) (\<lambda>tmp. Returns (Some tmp)) else Returns None)"

text \<open>
  Modelled from the spec: \<open>LoadBalancerWaitForWorkRequest\<close> is not among the sources.
  The spec describes it as a long-poll loop that polls the work request until it reaches a
  terminal lifecycle state. Each round asks the service for the work request; an error of
  the service ends the loop with that error, a terminal state ends it with \<open>nil\<close>. The
  first argument bounds the number of rounds.
\<close>

fun LoadBalancerWaitForWorkRequest ::
  "nat \<Rightarrow> LoadBalancerClient \<Rightarrow> ResourceData \<Rightarrow> WorkRequest \<Rightarrow> RetryPolicy option
     \<Rightarrow> api_call list \<Rightarrow> error option outcome \<times> api_call list" where
  "LoadBalancerWaitForWorkRequest 0 client d wr retryPolicy h = (Unfinished, h)"
| "LoadBalancerWaitForWorkRequest (Suc fuel) client d wr retryPolicy h =
     (let getWorkRequestRequest = \<lparr>WorkRequestId = Id wr, RetryPolicy = retryPolicy\<rparr>
      in case GetWorkRequest client h getWorkRequestRequest of
           (workRequestResponse, err) \<Rightarrow>
             (let h = h @ [CallGetWorkRequest getWorkRequestRequest];
                  wr = GetWorkRequestResponse.WorkRequest workRequestResponse
              in if err \<noteq> None then (Returns err, h)
                 else if LifecycleState wr = WorkRequestLifecycleStateSucceeded
                         \<or> LifecycleState wr = WorkRequestLifecycleStateFailed
                 then (Returns None, h)
                 else LoadBalancerWaitForWorkRequest fuel client d wr retryPolicy h))"

text \<open>The request that \<open>Create\<close> assembles before it calls the service.\<close>

definition Create_request :: "BackendResourceCrud \<Rightarrow> CreateBackendRequest outcome" where
  "Create_request s =
     and_then (GetOkExists_string (D s) ''backendset_name'') (\<lambda>backendsetName.
     and_then (GetOkExists_bool (D s) ''backup'') (\<lambda>backup.
     and_then (GetOkExists_bool (D s) ''drain'') (\<lambda>drain.
     and_then (GetOkExists_string (D s) ''ip_address'') (\<lambda>ipAddress.
     and_then (GetOkExists_string (D s) ''load_balancer_id'') (\<lambda>loadBalancerId.
     and_then (GetOkExists_bool (D s) ''offline'') (\<lambda>offline.
     and_then (GetOkExists_int (D s) ''port'') (\<lambda>port.
     and_then (GetOkExists_int (D s) ''weight'') (\<lambda>weight.
     Returns
       \<lparr>CreateBackendRequest.BackendSetName = backendsetName,
        Backup = backup,
        Drain = drain,
        IpAddress = ipAddress,
        LoadBalancerId = loadBalancerId,
        Offline = offline,
        Port = port,
        Weight = weight,
        RetryPolicy = getRetryPolicy (DisableNotFoundRetries s) ''load_balancer''\<rparr>))))))))"

text \<open>
  \<open>Create\<close> returns the Go result, the receiver as the method leaves it, and the calls made
  to the service so far.
\<close>

definition Create ::
  "nat \<Rightarrow> BackendResourceCrud \<Rightarrow> api_call list
     \<Rightarrow> error option outcome \<times> BackendResourceCrud \<times> api_call list" where
  "Create fuel s h =
     (case Create_request s of
        Panics \<Rightarrow> (Panics, s, h)
      | Unfinished \<Rightarrow> (Unfinished, s, h)
      | Returns request \<Rightarrow>
          (case CreateBackend (Client s) h request of
             (response, err) \<Rightarrow>
               (let h = h @ [CallCreateBackend request]
                in if err \<noteq> None then (Returns err, s, h)
                   else
                     (let workReqID = CreateBackendResponse.OpcWorkRequestId response;
                          getWorkRequestRequest =
                            \<lparr>WorkRequestId = workReqID,
                             RetryPolicy = getRetryPolicy (DisableNotFoundRetries s) ''load_balancer''\<rparr>
                      in case GetWorkRequest (Client s) h getWorkRequestRequest of
                           (workRequestResponse, err) \<Rightarrow>
                             (let h = h @ [CallGetWorkRequest getWorkRequestRequest]
                              in if err \<noteq> None then (Returns err, s, h)
                                 else
                                   (let wr = GetWorkRequestResponse.WorkRequest workRequestResponse;
                                        s = s\<lparr>WorkRequest := Some wr\<rparr>
                                    in case LoadBalancerWaitForWorkRequest fuel (Client s) (D s) wr
                                              (getRetryPolicy (DisableNotFoundRetries s) ''load_balancer'') h of
                                         (r, h) \<Rightarrow> (r, s, h)))))))"

text \<open>The request that \<open>Delete\<close> assembles before it calls the service.\<close>

definition Delete_request :: "BackendResourceCrud \<Rightarrow> DeleteBackendRequest outcome" where
  "Delete_request s =
     and_then (GetOkExists_string (D s) ''name'') (\<lambda>backendName.
     and_then (GetOkExists_string (D s) ''backendset_name'') (\<lambda>backendsetName.
     and_then (GetOkExists_string (D s) ''load_balancer_id'') (\<lambda>loadBalancerId.
     Returns
       \<lparr>BackendName = backendName,
        BackendSetName = backendsetName,
        LoadBalancerId = loadBalancerId,
        RetryPolicy = getRetryPolicy (DisableNotFoundRetries s) ''load_balancer''\<rparr>)))"

text \<open>
  In \<open>Delete\<close> the error of \<open>DeleteBackend\<close> is assigned and then overwritten by the
  error of \<open>GetWorkRequest\<close> without being read; \<open>*workReqID\<close> panics on \<open>nil\<close>.
\<close>

definition Delete ::
  "nat \<Rightarrow> BackendResourceCrud \<Rightarrow> api_call list
     \<Rightarrow> error option outcome \<times> BackendResourceCrud \<times> api_call list" where
  "Delete fuel s h =
     (if Contains (D_Id (D s)) ''ocid1.loadbalancerworkrequest'' then (Returns None, s, h)
      else
        (case Delete_request s of
           Panics \<Rightarrow> (Panics, s, h)
         | Unfinished \<Rightarrow> (Unfinished, s, h)
         | Returns request \<Rightarrow>
             (case DeleteBackend (Client s) h request of
                (response, err) \<Rightarrow>
                  (let h = h @ [CallDeleteBackend request];
                       workReqID = DeleteBackendResponse.OpcWorkRequestId response;
                       getWorkRequestRequest =
                         \<lparr>WorkRequestId = workReqID,
                          RetryPolicy = getRetryPolicy (DisableNotFoundRetries s) ''load_balancer''\<rparr>
                   in case GetWorkRequest (Client s) h getWorkRequestRequest of
                        (workRequestResponse, err) \<Rightarrow>
                          (let h = h @ [CallGetWorkRequest getWorkRequestRequest]
                           in if err \<noteq> None then (Returns err, s, h)
                              else
                                (let wr = GetWorkRequestResponse.WorkRequest workRequestResponse;
                                     s = s\<lparr>WorkRequest := Some wr\<rparr>
                                 in case workReqID of
                                      None \<Rightarrow> (Panics, s, h)
                                    | Some i \<Rightarrow>
                                        (let s = s\<lparr>D := D_SetId (D s) i\<rparr>
                                         in case LoadBalancerWaitForWorkRequest fuel (Client s) (D s) wr
                                                   (getRetryPolicy (DisableNotFoundRetries s) ''load_balancer'') h of
                                              (r, h) \<Rightarrow> (r, s, h))))))))"

text \<open>\<open>SetData\<close>; the warning it logs when the identifier does not parse is not modelled.\<close>

definition SetData :: "BackendResourceCrud \<Rightarrow> error option \<times> BackendResourceCrud" where
  "SetData s =
     (case Res s of
        None \<Rightarrow> (None, s)
      | Some res \<Rightarrow>
          (let d = D s;
               d = (case parseBackendCompositeId (D_Id d) of
                      (backendName, backendSetName, loadBalancerId, err) \<Rightarrow>
                        if err = None
                        then D_Set (D_Set (D_Set d ''name'' (VString backendName))
                                      ''backendset_name'' (VString backendSetName))
                               ''load_balancer_id'' (VString loadBalancerId)
                        else d);
               d = (case Backend.Backup res of Some v \<Rightarrow> D_Set d ''backup'' (VBool v) | None \<Rightarrow> d);
               d = (case Backend.Drain res of Some v \<Rightarrow> D_Set d ''drain'' (VBool v) | None \<Rightarrow> d);
               d = (case Backend.IpAddress res of Some v \<Rightarrow> D_Set d ''ip_address'' (VString v) | None \<Rightarrow> d);
               d = (case Name res of Some v \<Rightarrow> D_Set d ''name'' (VString v) | None \<Rightarrow> d);
               d = (case Backend.Offline res of Some v \<Rightarrow> D_Set d ''offline'' (VBool v) | None \<Rightarrow> d);
               d = (case Backend.Port res of Some v \<Rightarrow> D_Set d ''port'' (VInt v) | None \<Rightarrow> d);
               d = (case Backend.Weight res of Some v \<Rightarrow> D_Set d ''weight'' (VInt v) | None \<Rightarrow> d)
           in (None, s\<lparr>D := d\<rparr>)))"

section \<open>The DRG route distribution resource and its registration\<close>

definition CoreDrgRouteDistributionResource :: Resource where
  "CoreDrgRouteDistributionResource =
     \<lparr>Importer_State = ''ImportStatePassthrough'',
      Timeouts = ''DefaultTimeout'',
      Create_func = createCoreDrgRouteDistribution,
      Read_func = readCoreDrgRouteDistribution,
      Update_func = updateCoreDrgRouteDistribution,
      Delete_func = deleteCoreDrgRouteDistribution,
      Schema_map =
        [(''distribution_type'', (plain TypeString)\<lparr>Required := True, ForceNew := True\<rparr>),
         (''drg_id'', (plain TypeString)\<lparr>Required := True, ForceNew := True\<rparr>),
         (''defined_tags'',
            (plain TypeMap)\<lparr>Optional := True, Computed := True,
              DiffSuppressFunc := Some ''definedTagsDiffSuppressFunction'',
              Elem := Some TypeString\<rparr>),
         (''display_name'', (plain TypeString)\<lparr>Optional := True, Computed := True\<rparr>),
         (''freeform_tags'',
            (plain TypeMap)\<lparr>Optional := True, Computed := True, Elem := Some TypeString\<rparr>),
         (''compartment_id'', (plain TypeString)\<lparr>Computed := True\<rparr>),
         (''state'', (plain TypeString)\<lparr>Computed := True\<rparr>),
         (''time_created'', (plain TypeString)\<lparr>Computed := True\<rparr>)]\<rparr>"

text \<open>
  Modelled from the spec: \<open>RegisterResource\<close> is not among the sources. The spec says
  that the adapters register themselves into a global resource table; registering stores
  the resource in the table under its name.
\<close>

definition RegisterResource ::
  "string \<Rightarrow> Resource \<Rightarrow> (string \<rightharpoonup> Resource) \<Rightarrow> (string \<rightharpoonup> Resource)" where
  "RegisterResource name resourceSchema resources = resources(name \<mapsto> resourceSchema)"

text \<open>The package's \<open>init\<close>, as a step on the global table.\<close>

definition init :: "(string \<rightharpoonup> Resource) \<Rightarrow> (string \<rightharpoonup> Resource)" where
  "init resources =
     RegisterResource ''oci_core_drg_route_distribution'' CoreDrgRouteDistributionResource resources"

section \<open>The generated enum \<open>WorkItemTypeEnum\<close>\<close>

type_synonym WorkItemTypeEnum = string

definition WorkItemTypeLcm :: WorkItemTypeEnum where
  "WorkItemTypeLcm = ''LCM''"

definition WorkItemTypeJfrCapture :: WorkItemTypeEnum where
  "WorkItemTypeJfrCapture = ''JFR_CAPTURE''"

definition WorkItemTypeJfrUpload :: WorkItemTypeEnum where
  "WorkItemTypeJfrUpload = ''JFR_UPLOAD''"

definition WorkItemTypeCryptoAnalysis :: WorkItemTypeEnum where
  "WorkItemTypeCryptoAnalysis = ''CRYPTO_ANALYSIS''"

definition WorkItemTypeCryptoAnalysisMerge :: WorkItemTypeEnum where
  "WorkItemTypeCryptoAnalysisMerge = ''CRYPTO_ANALYSIS_MERGE''"

definition WorkItemTypeAdvancedUsageTracking :: WorkItemTypeEnum where
  "WorkItemTypeAdvancedUsageTracking = ''ADVANCED_USAGE_TRACKING''"

definition WorkItemTypePerformanceTuning :: WorkItemTypeEnum where
  "WorkItemTypePerformanceTuning = ''PERFORMANCE_TUNING''"

definition WorkItemTypeJmigrateAnalysis :: WorkItemTypeEnum where
  "WorkItemTypeJmigrateAnalysis = ''JMIGRATE_ANALYSIS''"

text \<open>The constants of the \<open>const\<close> block, in the order of their declaration.\<close>

definition WorkItemTypeEnum_constants :: "WorkItemTypeEnum list" where
  "WorkItemTypeEnum_constants =
     [WorkItemTypeLcm, WorkItemTypeJfrCapture, WorkItemTypeJfrUpload, WorkItemTypeCryptoAnalysis,
      WorkItemTypeCryptoAnalysisMerge, WorkItemTypeAdvancedUsageTracking,
      WorkItemTypePerformanceTuning, WorkItemTypeJmigrateAnalysis]"

text \<open>A Go map literal, as its list of entries; the keys of each are distinct.\<close>

definition mappingWorkItemTypeEnum :: "(string \<times> WorkItemTypeEnum) list" where
  "mappingWorkItemTypeEnum =
     [(''LCM'', WorkItemTypeLcm),
      (''JFR_CAPTURE'', WorkItemTypeJfrCapture),
      (''JFR_UPLOAD'', WorkItemTypeJfrUpload),
      (''CRYPTO_ANALYSIS'', WorkItemTypeCryptoAnalysis),
      (''CRYPTO_ANALYSIS_MERGE'', WorkItemTypeCryptoAnalysisMerge),
      (''ADVANCED_USAGE_TRACKING'', WorkItemTypeAdvancedUsageTracking),
      (''PERFORMANCE_TUNING'', WorkItemTypePerformanceTuning),
      (''JMIGRATE_ANALYSIS'', WorkItemTypeJmigrateAnalysis)]"

definition mappingWorkItemTypeEnumLowerCase :: "(string \<times> WorkItemTypeEnum) list" where
  "mappingWorkItemTypeEnumLowerCase =
     [(''lcm'', WorkItemTypeLcm),
      (''jfr_capture'', WorkItemTypeJfrCapture),
      (''jfr_upload'', WorkItemTypeJfrUpload),
      (''crypto_analysis'', WorkItemTypeCryptoAnalysis),
      (''crypto_analysis_merge'', WorkItemTypeCryptoAnalysisMerge),
      (''advanced_usage_tracking'', WorkItemTypeAdvancedUsageTracking),
      (''performance_tuning'', WorkItemTypePerformanceTuning),
      (''jmigrate_analysis'', WorkItemTypeJmigrateAnalysis)]"

text \<open>
  \<open>for _, v := range m\<close> visits every key of the map once, in an order the language
  leaves open. The order is the argument \<open>order\<close>, a list of the keys; the loop appends
  the value of each key it visits.
\<close>

definition range_order :: "(string \<times> 'v) list \<Rightarrow> string list \<Rightarrow> bool" where
  "range_order m order = (distinct order \<and> set order = set (map fst m))"

fun append_values :: "(string \<times> 'v) list \<Rightarrow> 'v list \<Rightarrow> string list \<Rightarrow> 'v list" where
  "append_values m values [] = values"
| "append_values m values (k # ks) =
     (case map_of m k of
        Some v \<Rightarrow> append_values m (values @ [v]) ks
      | None \<Rightarrow> append_values m values ks)"

definition GetWorkItemTypeEnumValues :: "string list \<Rightarrow> WorkItemTypeEnum list" where
  "GetWorkItemTypeEnumValues order = append_values mappingWorkItemTypeEnum [] order"

definition GetWorkItemTypeEnumStringValues :: "string list" where
  "GetWorkItemTypeEnumStringValues =
     [''LCM'', ''JFR_CAPTURE'', ''JFR_UPLOAD'', ''CRYPTO_ANALYSIS'', ''CRYPTO_ANALYSIS_MERGE'',
      ''ADVANCED_USAGE_TRACKING'', ''PERFORMANCE_TUNING'', ''JMIGRATE_ANALYSIS'']"

text \<open>
  \<open>strings.ToLower\<close>: on a string of ASCII bytes only, every upper-case letter becomes
  its lower-case letter. A string with a byte from 0x80 on is mapped rune by rune through
  the Unicode tables, which are the argument \<open>unicodeLower\<close>.
\<close>

definition lower_byte :: "char \<Rightarrow> char" where
  "lower_byte c = (if 65 \<le> code c \<and> code c \<le> 90 then char_of (code c + 32) else c)"

definition ToLower :: "(string \<Rightarrow> string) \<Rightarrow> string \<Rightarrow> string" where
  "ToLower unicodeLower s =
     (if list_all (\<lambda>c. code c < 128) s then map lower_byte s else unicodeLower s)"

definition GetMappingWorkItemTypeEnum ::
  "(string \<Rightarrow> string) \<Rightarrow> string \<Rightarrow> WorkItemTypeEnum \<times> bool" where
  "GetMappingWorkItemTypeEnum unicodeLower val =
     (case map_of mappingWorkItemTypeEnumLowerCase (ToLower unicodeLower val) of
        Some enum \<Rightarrow> (enum, True)
      | None \<Rightarrow> ('''', False))"

section \<open>The generated struct \<open>PatchTypeConfigCategoryDetails\<close>\<close>

subsection \<open>strings.Join and encoding/json\<close>

fun Join :: "string list \<Rightarrow> string \<Rightarrow> string" where
  "Join [] sep = []"
| "Join [x] sep = x"
| "Join (x # y # xs) sep = x @ sep @ Join (y # xs) sep"

text \<open>
  What \<open>json.Marshal\<close> writes for a struct whose fields are strings and structs: an
  object with the fields in the order of their declaration, the fields of an embedded
  struct in its place. In a string the quote and the backslash are escaped with a
  backslash; the newline, the carriage return and the tab are written \<open>\n\<close>, \<open>\r\<close> and
  \<open>\t\<close>; every other byte below 0x20 and each of \<open><\<close>, \<open>>\<close> and \<open>&\<close> is written as
  \<open>\u00\<close> and its two lower-case hexadecimal digits; the other ASCII bytes are written
  as they are. Bytes from 0x80 on, which the strings encoded here do not have, are kept.
\<close>

datatype json_value = JString string | JObject "(string \<times> json_value) list"

definition lowerhex :: string where
  "lowerhex = ''0123456789abcdef''"

definition json_byte :: "char \<Rightarrow> string" where
  "json_byte c =
     (if c = CHR 0x22 \<or> c = CHR 0x5C then [CHR 0x5C, c]
      else if c = CHR 0x0A then [CHR 0x5C, CHR ''n'']
      else if c = CHR 0x0D then [CHR 0x5C, CHR ''r'']
      else if c = CHR 0x09 then [CHR 0x5C, CHR ''t'']
      else if code c < 32 \<or> c = CHR ''<'' \<or> c = CHR ''>'' \<or> c = CHR ''&''
        then [CHR 0x5C, CHR ''u'', CHR ''0'', CHR ''0'',
              lowerhex ! (code c div 16), lowerhex ! (code c mod 16)]
      else [c])"

definition json_string :: "string \<Rightarrow> string" where
  "json_string s = CHR 0x22 # concat (map json_byte s) @ [CHR 0x22]"

fun json_encode :: "json_value \<Rightarrow> string"
  and json_members :: "(string \<times> json_value) list \<Rightarrow> string" where
  "json_encode (JString s) = json_string s"
| "json_encode (JObject ms) = ''{'' @ json_members ms @ ''}''"
| "json_members [] = []"
| "json_members [(k, v)] = json_string k @ '':'' @ json_encode v"
| "json_members ((k, v) # m # ms) =
     json_string k @ '':'' @ json_encode v @ '','' @ json_members (m # ms)"

definition json_Marshal :: "json_value \<Rightarrow> string \<times> error option" where
  "json_Marshal v = (json_encode v, None)"

subsection \<open>The struct and its methods\<close>

text \<open>The struct has no field, so it has one value.\<close>

datatype PatchTypeConfigCategoryDetails = PatchTypeConfigCategoryDetails

text \<open>The fields \<open>json.Marshal\<close> finds in a value of the struct: none.\<close>

definition json_fields :: "PatchTypeConfigCategoryDetails \<Rightarrow> (string \<times> json_value) list" where
  "json_fields m = []"

text \<open>\<open>common.PointerString\<close> is not among the sources; it is the first argument.\<close>

definition String ::
  "(PatchTypeConfigCategoryDetails \<Rightarrow> string) \<Rightarrow> PatchTypeConfigCategoryDetails \<Rightarrow> string" where
  "String PointerString m = PointerString m"

definition ValidateEnumValue :: "PatchTypeConfigCategoryDetails \<Rightarrow> bool \<times> error option" where
  "ValidateEnumValue m =
     (let errMessage = ([] :: string list)
      in if length errMessage > 0
         then (True, Some (Errorf (Join errMessage [CHR 0x0A])))
         else (False, None))"

definition MarshalJSON :: "PatchTypeConfigCategoryDetails \<Rightarrow> string \<times> error option" where
  "MarshalJSON m =
     (let s = JObject ((''configCategory'', JString ''PATCH_TYPE'') # json_fields m)
      in json_Marshal s)"

section \<open>Concrete inputs\<close>

text \<open>
  A backend of the backend set \<open>bs1\<close>, a service that accepts every request and reports the
  work request it is asked for in progress until three calls have been made and succeeded
  from then on, and a service that rejects every request.
\<close>

definition example_data :: ResourceData where
  "example_data =
     \<lparr>rd_attrs =
        [''backendset_name'' \<mapsto> VString ''bs1'',
         ''ip_address'' \<mapsto> VString ''10.0.0.3'',
         ''load_balancer_id'' \<mapsto> VString ''lb1'',
         ''port'' \<mapsto> VInt 8080,
         ''backup'' \<mapsto> VBool False,
         ''name'' \<mapsto> VString ''10.0.0.3:8080''],
      rd_id = ''loadBalancers/lb1/backendSets/bs1/backends/10.0.0.3:8080''\<rparr>"

definition example_work_request :: "string \<Rightarrow> GetWorkRequestResponse" where
  "example_work_request state =
     \<lparr>GetWorkRequestResponse.WorkRequest =
        \<lparr>Id = Some ''ocid1.loadbalancerworkrequest.oc1..w1'', LifecycleState = state,
         Message = None\<rparr>\<rparr>"

definition example_client :: LoadBalancerClient where
  "example_client =
     \<lparr>CreateBackend =
        (\<lambda>h request.
           (\<lparr>CreateBackendResponse.OpcWorkRequestId = Some ''ocid1.loadbalancerworkrequest.oc1..w1''\<rparr>,
            None)),
      DeleteBackend =
        (\<lambda>h request.
           (\<lparr>DeleteBackendResponse.OpcWorkRequestId = Some ''ocid1.loadbalancerworkrequest.oc1..w1''\<rparr>,
            None)),
      GetWorkRequest =
        (\<lambda>h request.
           (\<lparr>GetWorkRequestResponse.WorkRequest =
               \<lparr>Id = WorkRequestId request,
                LifecycleState =
                  (if length h < 3 then WorkRequestLifecycleStateInProgress
                   else WorkRequestLifecycleStateSucceeded),
                Message = None\<rparr>\<rparr>,
            None))\<rparr>"

definition example_crud :: BackendResourceCrud where
  "example_crud =
     \<lparr>D = example_data, Client = example_client, Res = None,
      DisableNotFoundRetries = False, WorkRequest = None\<rparr>"

definition rejecting_client :: LoadBalancerClient where
  "rejecting_client =
     \<lparr>CreateBackend =
        (\<lambda>h request.
           (\<lparr>CreateBackendResponse.OpcWorkRequestId = None\<rparr>,
            Some (ServiceError ''CreateBackend: 409 Conflict''))),
      DeleteBackend =
        (\<lambda>h request.
           (\<lparr>DeleteBackendResponse.OpcWorkRequestId = None\<rparr>,
            Some (ServiceError ''DeleteBackend: 409 Conflict''))),
      GetWorkRequest =
        (\<lambda>h request.
           (\<lparr>GetWorkRequestResponse.WorkRequest =
               \<lparr>Id = None, LifecycleState = '''', Message = None\<rparr>\<rparr>,
            Some (ServiceError ''GetWorkRequest: workRequestId is nil'')))\<rparr>"

definition example_backend :: Backend where
  "example_backend =
     \<lparr>Backend.Backup = Some True, Drain = None, IpAddress = Some ''10.0.0.3'',
      Name = Some ''10.0.0.3:8080'', Offline = Some False, Port = Some 8080, Weight = None\<rparr>"

definition failed_work_request :: WorkRequest where
  "failed_work_request =
     \<lparr>Id = None, LifecycleState = WorkRequestLifecycleStateFailed, Message = None\<rparr>"


section \<open>Evaluation of the concrete inputs\<close>

lemmas lifecycle_defs =
  WorkRequestLifecycleStateSucceeded_def WorkRequestLifecycleStateFailed_def
  WorkRequestLifecycleStateInProgress_def WorkRequestLifecycleStateAccepted_def

lemmas getter_defs =
  GetOkExists_string_def GetOkExists_bool_def GetOkExists_int_def D_GetOkExists_def D_Get_def
  and_then_def as_string_def as_bool_def as_int_def zero_of_def BackendResource_def plain_def
  zero_value_def getRetryPolicy_def

lemmas example_defs =
  example_crud_def example_data_def example_client_def example_work_request_def
  rejecting_client_def example_backend_def failed_work_request_def

lemma conforms_example: "conforms (D example_crud)"
  by (simp add: conforms_def BackendResource_def plain_def example_defs)


section \<open>Escaping and the composite identifier\<close>

lemma unhex_upperhex_all:
  "\<forall>k \<in> set [0..<16]. unhex (upperhex ! k) = k \<and> ishex (upperhex ! k)"
  by code_simp

lemma unhex_upperhex: "k < 16 \<Longrightarrow> unhex (upperhex ! k) = k \<and> ishex (upperhex ! k)"
  using unhex_upperhex_all by simp

lemma upperhex_mem: "k < 16 \<Longrightarrow> upperhex ! k \<in> set upperhex"
  by (rule nth_mem) (simp add: upperhex_def)

lemma code_less: "code c < 256"
  by (simp add: code_def)

lemma percent_escaped: "shouldEscape (CHR ''%'')"
  by (simp add: shouldEscape_def code_def)

lemma slash_escaped: "shouldEscape (CHR ''/'')"
  by (simp add: shouldEscape_def code_def)

lemma newline_escaped: "shouldEscape (CHR 0x0A)"
  by (simp add: shouldEscape_def code_def)

lemma escape_byte_clean:
  "CHR ''/'' \<notin> set (escape_byte c) \<and> CHR 0x0A \<notin> set (escape_byte c)"
proof (cases "shouldEscape c")
  case True
  have d: "code c div 16 < 16" "code c mod 16 < 16"
    using code_less [of c] by auto
  have "CHR ''/'' \<notin> set upperhex" "CHR 0x0A \<notin> set upperhex"
    by (simp_all add: upperhex_def)
  then show ?thesis
    using True upperhex_mem [OF d(1)] upperhex_mem [OF d(2)]
    by (auto simp: escape_byte_def)
next
  case False
  then show ?thesis
    using slash_escaped newline_escaped by (auto simp: escape_byte_def)
qed

lemma PathEscape_clean:
  "CHR ''/'' \<notin> set (PathEscape s) \<and> CHR 0x0A \<notin> set (PathEscape s)"
  using escape_byte_clean by (auto simp: PathEscape_def)

lemma decode_hex: "char_of (unhex (upperhex ! (code c div 16)) * 16 + unhex (upperhex ! (code c mod 16))) = c"
proof -
  have d: "code c div 16 < 16" "code c mod 16 < 16"
    using code_less [of c] by auto
  have "unhex (upperhex ! (code c div 16)) * 16 + unhex (upperhex ! (code c mod 16)) = code c"
    using unhex_upperhex [OF d(1)] unhex_upperhex [OF d(2)] by simp
  then show ?thesis by (simp add: code_def)
qed

lemma unescape_escape_byte:
  "unescape (escape_byte c @ r) =
     (case unescape r of (t, None) \<Rightarrow> (c # t, None) | (t, Some e) \<Rightarrow> ([], Some e))"
proof (cases "shouldEscape c")
  case True
  have d: "code c div 16 < 16" "code c mod 16 < 16"
    using code_less [of c] by auto
  show ?thesis
    using True unhex_upperhex [OF d(1)] unhex_upperhex [OF d(2)] decode_hex [of c]
    by (simp add: escape_byte_def)
next
  case False
  then have "c \<noteq> CHR ''%''" using percent_escaped by auto
  with False show ?thesis by (simp add: escape_byte_def)
qed

lemma unescape_PathEscape: "unescape (PathEscape s) = (s, None)"
  by (induction s) (simp_all add: PathEscape_def unescape_escape_byte)

lemma PathUnescape_PathEscape: "PathUnescape (PathEscape s) = (s, None)"
  by (simp add: PathUnescape_def unescape_PathEscape)

lemma Split_nonempty: "Split s sep \<noteq> []"
  by (induction s) (auto split: list.splits)

lemma Split_no_sep: "sep \<notin> set a \<Longrightarrow> Split a sep = [a]"
  by (induction a) auto

lemma Split_append: "sep \<notin> set a \<Longrightarrow> Split (a @ sep # r) sep = a # Split r sep"
  by (induction a) auto

lemma match_here_lit: "match_here r ps \<Longrightarrow> match_here (l @ r) (Lit l # ps)"
  by simp

lemma match_here_star:
  "CHR 0x0A \<notin> set x \<Longrightarrow> match_here r ps \<Longrightarrow> match_here (x @ r) (AnyStar # ps)"
proof (induction x)
  case Nil
  then show ?case by (cases r) auto
next
  case (Cons c x)
  then show ?case by auto
qed

lemma match_anywhere_here: "match_here s ps \<Longrightarrow> match_anywhere s ps"
  by (cases s) auto

lemma Split_composite:
  assumes "CHR ''/'' \<notin> set a" "CHR ''/'' \<notin> set b" "CHR ''/'' \<notin> set c"
  shows "Split (''loadBalancers/'' @ a @ ''/backendSets/'' @ b @ ''/backends/'' @ c) (CHR ''/'')
         = [''loadBalancers'', a, ''backendSets'', b, ''backends'', c]"
proof -
  have 1: "Split (''loadBalancers/'' @ a @ ''/backendSets/'' @ b @ ''/backends/'' @ c) (CHR ''/'')
        = ''loadBalancers'' # Split (a @ CHR ''/'' # (''backendSets/'' @ b @ ''/backends/'' @ c)) (CHR ''/'')"
    using Split_append [of "CHR ''/''" "''loadBalancers''"] by simp
  have 2: "Split (a @ CHR ''/'' # (''backendSets/'' @ b @ ''/backends/'' @ c)) (CHR ''/'')
        = a # Split (''backendSets/'' @ b @ ''/backends/'' @ c) (CHR ''/'')"
    using assms(1) by (rule Split_append)
  have 3: "Split (''backendSets/'' @ b @ ''/backends/'' @ c) (CHR ''/'')
        = ''backendSets'' # Split (b @ CHR ''/'' # (''backends/'' @ c)) (CHR ''/'')"
    using Split_append [of "CHR ''/''" "''backendSets''"] by simp
  have 4: "Split (b @ CHR ''/'' # (''backends/'' @ c)) (CHR ''/'')
        = b # Split (''backends/'' @ c) (CHR ''/'')"
    using assms(2) by (rule Split_append)
  have 5: "Split (''backends/'' @ c) (CHR ''/'') = ''backends'' # Split c (CHR ''/'')"
    using Split_append [of "CHR ''/''" "''backends''"] by simp
  have 6: "Split c (CHR ''/'') = [c]"
    using assms(3) by (rule Split_no_sep)
  show ?thesis unfolding 1 2 3 4 5 6 ..
qed

lemma match_composite:
  assumes "CHR 0x0A \<notin> set a" "CHR 0x0A \<notin> set b" "CHR 0x0A \<notin> set c"
  shows "match_anywhere (''loadBalancers/'' @ a @ ''/backendSets/'' @ b @ ''/backends/'' @ c)
           compositeIdPattern"
proof -
  have 6: "match_here (c @ []) [AnyStar]"
    using assms(3) by (intro match_here_star) simp_all
  have 5: "match_here (''/backends/'' @ c) [Lit ''/backends/'', AnyStar]"
    using 6 match_here_lit [of c "[AnyStar]" "''/backends/''"] by simp
  have 4: "match_here (b @ ''/backends/'' @ c) [AnyStar, Lit ''/backends/'', AnyStar]"
    using assms(2) 5 by (rule match_here_star)
  have 3: "match_here (''/backendSets/'' @ b @ ''/backends/'' @ c)
             [Lit ''/backendSets/'', AnyStar, Lit ''/backends/'', AnyStar]"
    using 4 by (rule match_here_lit)
  have 2: "match_here (a @ ''/backendSets/'' @ b @ ''/backends/'' @ c)
             [AnyStar, Lit ''/backendSets/'', AnyStar, Lit ''/backends/'', AnyStar]"
    using assms(1) 3 by (rule match_here_star)
  have 1: "match_here (''loadBalancers/'' @ a @ ''/backendSets/'' @ b @ ''/backends/'' @ c)
             compositeIdPattern"
    unfolding compositeIdPattern_def using 2 by (rule match_here_lit)
  then show ?thesis by (rule match_anywhere_here)
qed

text \<open>
  Claim C4. For all strings \<open>backendName\<close>, \<open>backendSetName\<close> and \<open>loadBalancerId\<close>,
  parsing the composite identifier built from them gives the three strings back with a
  \<open>nil\<close> error: every component is path-escaped, so it holds no slash and no newline,
  the identifier splits into six parts and matches the pattern, and unescaping undoes the
  escaping.
\<close>

theorem parse_get_roundtrip:
  "parseBackendCompositeId (getBackendCompositeId backendName backendSetName loadBalancerId)
     = (backendName, backendSetName, loadBalancerId, None)"
proof -
  let ?a = "PathEscape loadBalancerId"
  let ?b = "PathEscape backendSetName"
  let ?c = "PathEscape backendName"
  let ?id = "''loadBalancers/'' @ ?a @ ''/backendSets/'' @ ?b @ ''/backends/'' @ ?c"
  have id: "getBackendCompositeId backendName backendSetName loadBalancerId = ?id"
    by (simp add: getBackendCompositeId_def)
  have parts: "Split ?id (CHR ''/'') = [''loadBalancers'', ?a, ''backendSets'', ?b, ''backends'', ?c]"
    by (rule Split_composite) (simp_all add: PathEscape_clean)
  have m: "match_anywhere ?id compositeIdPattern"
    by (rule match_composite) (simp_all add: PathEscape_clean)
  show ?thesis
    unfolding id parseBackendCompositeId_def Let_def parts
    using m by (simp add: MatchString_def PathUnescape_PathEscape)
qed

theorem parse_get_roundtrip_witness:
  "getBackendCompositeId ''10.0.0.3:80'' ''set 1'' ''lb/x''
     = ''loadBalancers/lb%2Fx/backendSets/set%201/backends/10.0.0.3:80''
   \<and> parseBackendCompositeId ''loadBalancers/lb%2Fx/backendSets/set%201/backends/10.0.0.3:80''
     = (''10.0.0.3:80'', ''set 1'', ''lb/x'', None)"
proof -
  have e: "getBackendCompositeId ''10.0.0.3:80'' ''set 1'' ''lb/x''
             = ''loadBalancers/lb%2Fx/backendSets/set%201/backends/10.0.0.3:80''"
    by code_simp
  show ?thesis
    using parse_get_roundtrip [of "''10.0.0.3:80''" "''set 1''" "''lb/x''"] e by simp
qed

section \<open>The request built by \<open>Create\<close>\<close>

lemma conforms_string:
  assumes "conforms d" "rd_attrs d key = Some v"
    and "key \<in> {''backendset_name'', ''ip_address'', ''load_balancer_id'', ''name'', ''state''}"
  shows "\<exists>x. v = VString x"
  using assms by (cases v) (auto simp: conforms_def BackendResource_def plain_def)

lemma conforms_bool:
  assumes "conforms d" "rd_attrs d key = Some v"
    and "key \<in> {''backup'', ''drain'', ''offline''}"
  shows "\<exists>x. v = VBool x"
  using assms by (cases v) (auto simp: conforms_def BackendResource_def plain_def)

lemma conforms_int:
  assumes "conforms d" "rd_attrs d key = Some v"
    and "key \<in> {''port'', ''weight''}"
  shows "\<exists>x. v = VInt x"
  using assms by (cases v) (auto simp: conforms_def BackendResource_def plain_def)

lemma GetOkExists_string_conforms:
  assumes "conforms d"
    and "key \<in> {''backendset_name'', ''ip_address'', ''load_balancer_id'', ''name'', ''state''}"
  shows "\<exists>p. GetOkExists_string d key = Returns p \<and> map_option VString p = rd_attrs d key"
proof (cases "rd_attrs d key")
  case None
  then show ?thesis by (simp add: GetOkExists_string_def D_GetOkExists_def)
next
  case (Some v)
  then obtain x where "v = VString x" using conforms_string [OF assms(1) Some assms(2)] by blast
  with Some show ?thesis
    by (simp add: GetOkExists_string_def D_GetOkExists_def as_string_def and_then_def)
qed

lemma GetOkExists_bool_conforms:
  assumes "conforms d"
    and "key \<in> {''backup'', ''drain'', ''offline''}"
  shows "\<exists>p. GetOkExists_bool d key = Returns p \<and> map_option VBool p = rd_attrs d key"
proof (cases "rd_attrs d key")
  case None
  then show ?thesis by (simp add: GetOkExists_bool_def D_GetOkExists_def)
next
  case (Some v)
  then obtain x where "v = VBool x" using conforms_bool [OF assms(1) Some assms(2)] by blast
  with Some show ?thesis
    by (simp add: GetOkExists_bool_def D_GetOkExists_def as_bool_def and_then_def)
qed

lemma GetOkExists_int_conforms:
  assumes "conforms d"
    and "key \<in> {''port'', ''weight''}"
  shows "\<exists>p. GetOkExists_int d key = Returns p \<and> map_option VInt p = rd_attrs d key"
proof (cases "rd_attrs d key")
  case None
  then show ?thesis by (simp add: GetOkExists_int_def D_GetOkExists_def)
next
  case (Some v)
  then obtain x where "v = VInt x" using conforms_int [OF assms(1) Some assms(2)] by blast
  with Some show ?thesis
    by (simp add: GetOkExists_int_def D_GetOkExists_def as_int_def and_then_def)
qed

lemma Wait_extends:
  "\<exists>ext. snd (LoadBalancerWaitForWorkRequest fuel client d wr retryPolicy h) = h @ ext"
proof (induction fuel arbitrary: wr h)
  case 0
  then show ?case by simp
next
  case (Suc fuel)
  obtain response err where g: "GetWorkRequest client h \<lparr>WorkRequestId = Id wr, RetryPolicy = retryPolicy\<rparr> = (response, err)"
    by (cases "GetWorkRequest client h \<lparr>WorkRequestId = Id wr, RetryPolicy = retryPolicy\<rparr>")
  obtain ext where "snd (LoadBalancerWaitForWorkRequest fuel client d (GetWorkRequestResponse.WorkRequest response) retryPolicy
             (h @ [CallGetWorkRequest \<lparr>WorkRequestId = Id wr, RetryPolicy = retryPolicy\<rparr>]))
          = (h @ [CallGetWorkRequest \<lparr>WorkRequestId = Id wr, RetryPolicy = retryPolicy\<rparr>]) @ ext"
    using Suc.IH by blast
  then show ?case using g by (simp add: Let_def)
qed

lemma Create_request_conforms:
  assumes "conforms (D s)"
  shows "\<exists>request. Create_request s = Returns request
     \<and> map_option VString (CreateBackendRequest.BackendSetName request) = rd_attrs (D s) ''backendset_name''
     \<and> map_option VBool (CreateBackendRequest.Backup request) = rd_attrs (D s) ''backup''
     \<and> map_option VBool (CreateBackendRequest.Drain request) = rd_attrs (D s) ''drain''
     \<and> map_option VString (CreateBackendRequest.IpAddress request) = rd_attrs (D s) ''ip_address''
     \<and> map_option VString (CreateBackendRequest.LoadBalancerId request) = rd_attrs (D s) ''load_balancer_id''
     \<and> map_option VBool (CreateBackendRequest.Offline request) = rd_attrs (D s) ''offline''
     \<and> map_option VInt (CreateBackendRequest.Port request) = rd_attrs (D s) ''port''
     \<and> map_option VInt (CreateBackendRequest.Weight request) = rd_attrs (D s) ''weight''"
proof -
  obtain p1 where 1: "GetOkExists_string (D s) ''backendset_name'' = Returns p1"
      "map_option VString p1 = rd_attrs (D s) ''backendset_name''"
    using GetOkExists_string_conforms [OF assms, of "''backendset_name''"] by auto
  obtain p2 where 2: "GetOkExists_bool (D s) ''backup'' = Returns p2"
      "map_option VBool p2 = rd_attrs (D s) ''backup''"
    using GetOkExists_bool_conforms [OF assms, of "''backup''"] by auto
  obtain p3 where 3: "GetOkExists_bool (D s) ''drain'' = Returns p3"
      "map_option VBool p3 = rd_attrs (D s) ''drain''"
    using GetOkExists_bool_conforms [OF assms, of "''drain''"] by auto
  obtain p4 where 4: "GetOkExists_string (D s) ''ip_address'' = Returns p4"
      "map_option VString p4 = rd_attrs (D s) ''ip_address''"
    using GetOkExists_string_conforms [OF assms, of "''ip_address''"] by auto
  obtain p5 where 5: "GetOkExists_string (D s) ''load_balancer_id'' = Returns p5"
      "map_option VString p5 = rd_attrs (D s) ''load_balancer_id''"
    using GetOkExists_string_conforms [OF assms, of "''load_balancer_id''"] by auto
  obtain p6 where 6: "GetOkExists_bool (D s) ''offline'' = Returns p6"
      "map_option VBool p6 = rd_attrs (D s) ''offline''"
    using GetOkExists_bool_conforms [OF assms, of "''offline''"] by auto
  obtain p7 where 7: "GetOkExists_int (D s) ''port'' = Returns p7"
      "map_option VInt p7 = rd_attrs (D s) ''port''"
    using GetOkExists_int_conforms [OF assms, of "''port''"] by auto
  obtain p8 where 8: "GetOkExists_int (D s) ''weight'' = Returns p8"
      "map_option VInt p8 = rd_attrs (D s) ''weight''"
    using GetOkExists_int_conforms [OF assms, of "''weight''"] by auto
  show ?thesis
    unfolding Create_request_def 1(1) 2(1) 3(1) 4(1) 5(1) 6(1) 7(1) 8(1)
    using 1(2) 2(2) 3(2) 4(2) 5(2) 6(2) 7(2) 8(2)
    by (simp add: and_then_def)
qed

lemma Create_calls:
  assumes "Create_request s = Returns request"
  shows "\<exists>ext. snd (snd (Create fuel s h)) = h @ CallCreateBackend request # ext"
proof -
  obtain response err where c: "CreateBackend (Client s) h request = (response, err)"
    by (cases "CreateBackend (Client s) h request")
  let ?h1 = "h @ [CallCreateBackend request]"
  let ?g = "\<lparr>WorkRequestId = CreateBackendResponse.OpcWorkRequestId response,
             RetryPolicy = getRetryPolicy (DisableNotFoundRetries s) ''load_balancer''\<rparr>"
  obtain wresponse werr where g: "GetWorkRequest (Client s) ?h1 ?g = (wresponse, werr)"
    by (cases "GetWorkRequest (Client s) ?h1 ?g")
  let ?h2 = "?h1 @ [CallGetWorkRequest ?g]"
  obtain ext where w: "snd (LoadBalancerWaitForWorkRequest fuel (Client s) (D s)
        (GetWorkRequestResponse.WorkRequest wresponse)
        (getRetryPolicy (DisableNotFoundRetries s) ''load_balancer'') ?h2) = ?h2 @ ext"
    using Wait_extends by blast
  show ?thesis
    using assms c g w
    by (auto simp: Create_def Let_def split: prod.splits)
qed

text \<open>
  Claim C1. For every resource data that conforms to the schema, the first call \<open>Create\<close>
  makes to the service is \<open>CreateBackend\<close> with a request in which, for each of the keys
  \<open>backendset_name\<close>, \<open>backup\<close>, \<open>drain\<close>, \<open>ip_address\<close>, \<open>load_balancer_id\<close>,
  \<open>offline\<close>, \<open>port\<close> and \<open>weight\<close>, the field of the request points to the value of
  the key when the key is present in the resource data, and is \<open>nil\<close> when it is not.
\<close>

theorem Create_copies_fields:
  assumes "conforms (D s)"
  shows "\<exists>request ext.
       snd (snd (Create fuel s h)) = h @ CallCreateBackend request # ext
     \<and> map_option VString (CreateBackendRequest.BackendSetName request) = rd_attrs (D s) ''backendset_name''
     \<and> map_option VBool (CreateBackendRequest.Backup request) = rd_attrs (D s) ''backup''
     \<and> map_option VBool (CreateBackendRequest.Drain request) = rd_attrs (D s) ''drain''
     \<and> map_option VString (CreateBackendRequest.IpAddress request) = rd_attrs (D s) ''ip_address''
     \<and> map_option VString (CreateBackendRequest.LoadBalancerId request) = rd_attrs (D s) ''load_balancer_id''
     \<and> map_option VBool (CreateBackendRequest.Offline request) = rd_attrs (D s) ''offline''
     \<and> map_option VInt (CreateBackendRequest.Port request) = rd_attrs (D s) ''port''
     \<and> map_option VInt (CreateBackendRequest.Weight request) = rd_attrs (D s) ''weight''"
proof -
  obtain request where r: "Create_request s = Returns request"
     "map_option VString (CreateBackendRequest.BackendSetName request) = rd_attrs (D s) ''backendset_name''"
     "map_option VBool (CreateBackendRequest.Backup request) = rd_attrs (D s) ''backup''"
     "map_option VBool (CreateBackendRequest.Drain request) = rd_attrs (D s) ''drain''"
     "map_option VString (CreateBackendRequest.IpAddress request) = rd_attrs (D s) ''ip_address''"
     "map_option VString (CreateBackendRequest.LoadBalancerId request) = rd_attrs (D s) ''load_balancer_id''"
     "map_option VBool (CreateBackendRequest.Offline request) = rd_attrs (D s) ''offline''"
     "map_option VInt (CreateBackendRequest.Port request) = rd_attrs (D s) ''port''"
     "map_option VInt (CreateBackendRequest.Weight request) = rd_attrs (D s) ''weight''"
    using Create_request_conforms [OF assms] by blast
  obtain ext where "snd (snd (Create fuel s h)) = h @ CallCreateBackend request # ext"
    using Create_calls [OF r(1)] by blast
  with r show ?thesis by blast
qed

theorem Create_copies_fields_witness:
  "conforms (D example_crud)
   \<and> (\<exists>request ext.
         snd (snd (Create 5 example_crud [])) = CallCreateBackend request # ext
       \<and> CreateBackendRequest.BackendSetName request = Some ''bs1''
       \<and> CreateBackendRequest.Backup request = Some False
       \<and> CreateBackendRequest.Drain request = None
       \<and> CreateBackendRequest.IpAddress request = Some ''10.0.0.3''
       \<and> CreateBackendRequest.LoadBalancerId request = Some ''lb1''
       \<and> CreateBackendRequest.Offline request = None
       \<and> CreateBackendRequest.Port request = Some 8080
       \<and> CreateBackendRequest.Weight request = None)"
proof -
  have c: "conforms (D example_crud)" by (rule conforms_example)
  from Create_copies_fields [OF c, of 5 "[]"]
  obtain request ext where r:
      "snd (snd (Create 5 example_crud [])) = [] @ CallCreateBackend request # ext"
      "map_option VString (CreateBackendRequest.BackendSetName request) = rd_attrs (D example_crud) ''backendset_name''"
      "map_option VBool (CreateBackendRequest.Backup request) = rd_attrs (D example_crud) ''backup''"
      "map_option VBool (CreateBackendRequest.Drain request) = rd_attrs (D example_crud) ''drain''"
      "map_option VString (CreateBackendRequest.IpAddress request) = rd_attrs (D example_crud) ''ip_address''"
      "map_option VString (CreateBackendRequest.LoadBalancerId request) = rd_attrs (D example_crud) ''load_balancer_id''"
      "map_option VBool (CreateBackendRequest.Offline request) = rd_attrs (D example_crud) ''offline''"
      "map_option VInt (CreateBackendRequest.Port request) = rd_attrs (D example_crud) ''port''"
      "map_option VInt (CreateBackendRequest.Weight request) = rd_attrs (D example_crud) ''weight''"
    by blast
  have "CreateBackendRequest.BackendSetName request = Some ''bs1''"
    using r(2) by (auto simp: example_defs)
  moreover have "CreateBackendRequest.Backup request = Some False"
    using r(3) by (auto simp: example_defs)
  moreover have "CreateBackendRequest.Drain request = None"
    using r(4) by (auto simp: example_defs)
  moreover have "CreateBackendRequest.IpAddress request = Some ''10.0.0.3''"
    using r(5) by (auto simp: example_defs)
  moreover have "CreateBackendRequest.LoadBalancerId request = Some ''lb1''"
    using r(6) by (auto simp: example_defs)
  moreover have "CreateBackendRequest.Offline request = None"
    using r(7) by (auto simp: example_defs)
  moreover have "CreateBackendRequest.Port request = Some 8080"
    using r(8) by (auto simp: example_defs)
  moreover have "CreateBackendRequest.Weight request = None"
    using r(9) by (auto simp: example_defs)
  ultimately show ?thesis using c r(1) by auto
qed

section \<open>\<open>Create\<close> and the work request\<close>

lemma Wait_terminal:
  assumes "LoadBalancerWaitForWorkRequest fuel client d wr retryPolicy h = (Returns None, h')"
  shows "\<exists>h0 request. h' = h0 @ [CallGetWorkRequest request]
           \<and> snd (GetWorkRequest client h0 request) = None
           \<and> LifecycleState (GetWorkRequestResponse.WorkRequest (fst (GetWorkRequest client h0 request)))
                 \<in> {WorkRequestLifecycleStateSucceeded, WorkRequestLifecycleStateFailed}"
  using assms
proof (induction fuel arbitrary: wr h)
  case 0
  then show ?case by simp
next
  case (Suc fuel)
  let ?g = "\<lparr>WorkRequestId = Id wr, RetryPolicy = retryPolicy\<rparr>"
  obtain response err where g: "GetWorkRequest client h ?g = (response, err)"
    by (cases "GetWorkRequest client h ?g")
  show ?case
  proof (cases "err \<noteq> None")
    case True
    with Suc.prems g show ?thesis by (auto simp: Let_def)
  next
    case noerr: False
    show ?thesis
    proof (cases "LifecycleState (GetWorkRequestResponse.WorkRequest response) = WorkRequestLifecycleStateSucceeded
                  \<or> LifecycleState (GetWorkRequestResponse.WorkRequest response) = WorkRequestLifecycleStateFailed")
      case True
      with Suc.prems g noerr have "h' = h @ [CallGetWorkRequest ?g]"
        by (auto simp: Let_def)
      with g noerr True show ?thesis by auto
    next
      case False
      with Suc.prems g noerr
      have "LoadBalancerWaitForWorkRequest fuel client d (GetWorkRequestResponse.WorkRequest response)
              retryPolicy (h @ [CallGetWorkRequest ?g]) = (Returns None, h')"
        by (simp add: Let_def)
      then show ?thesis by (rule Suc.IH)
    qed
  qed
qed

text \<open>The bound on the polls only cuts a run short: a larger bound gives the same result.\<close>

lemma Wait_more_fuel:
  "LoadBalancerWaitForWorkRequest fuel client d wr retryPolicy h = (Returns r, h')
   \<Longrightarrow> LoadBalancerWaitForWorkRequest (fuel + k) client d wr retryPolicy h = (Returns r, h')"
proof (induction fuel arbitrary: wr h)
  case 0
  then show ?case by simp
next
  case (Suc fuel)
  let ?g = "\<lparr>WorkRequestId = Id wr, RetryPolicy = retryPolicy\<rparr>"
  obtain response err where g: "GetWorkRequest client h ?g = (response, err)"
    by (cases "GetWorkRequest client h ?g")
  show ?case
  proof (cases "err \<noteq> None \<or> LifecycleState (GetWorkRequestResponse.WorkRequest response) = WorkRequestLifecycleStateSucceeded
                  \<or> LifecycleState (GetWorkRequestResponse.WorkRequest response) = WorkRequestLifecycleStateFailed")
    case True
    with Suc.prems g show ?thesis by (auto simp: Let_def)
  next
    case False
    with Suc.prems g
    have "LoadBalancerWaitForWorkRequest fuel client d (GetWorkRequestResponse.WorkRequest response)
              retryPolicy (h @ [CallGetWorkRequest ?g]) = (Returns r, h')"
      by (simp add: Let_def)
    then have "LoadBalancerWaitForWorkRequest (fuel + k) client d (GetWorkRequestResponse.WorkRequest response)
              retryPolicy (h @ [CallGetWorkRequest ?g]) = (Returns r, h')"
      by (rule Suc.IH)
    with False g show ?thesis by (simp add: Let_def)
  qed
qed








section \<open>\<open>Delete\<close> and the error of \<open>DeleteBackend\<close>\<close>

text \<open>
  Claim C3. \<open>Delete\<close> is claimed to hand every error of \<open>DeleteBackend\<close> to its caller.
  With a service that rejects the deletion and, being asked for a work request without an
  identifier, rejects that too, \<open>Delete\<close> goes on to \<open>GetWorkRequest\<close> and returns the
  error of that second call; the error of \<open>DeleteBackend\<close> is lost.
\<close>

theorem Delete_loses_error_of_DeleteBackend:
  "DeleteBackend rejecting_client []
      \<lparr>BackendName = Some ''10.0.0.3:8080'', BackendSetName = Some ''bs1'',
       LoadBalancerId = Some ''lb1'', RetryPolicy = getRetryPolicy False ''load_balancer''\<rparr>
     = (\<lparr>DeleteBackendResponse.OpcWorkRequestId = None\<rparr>,
        Some (ServiceError ''DeleteBackend: 409 Conflict''))
   \<and> Delete 5 (example_crud\<lparr>Client := rejecting_client\<rparr>) []
     = (Returns (Some (ServiceError ''GetWorkRequest: workRequestId is nil'')),
        example_crud\<lparr>Client := rejecting_client\<rparr>,
        [CallDeleteBackend
           \<lparr>BackendName = Some ''10.0.0.3:8080'', BackendSetName = Some ''bs1'',
            LoadBalancerId = Some ''lb1'', RetryPolicy = getRetryPolicy False ''load_balancer''\<rparr>,
         CallGetWorkRequest
           \<lparr>WorkRequestId = None, RetryPolicy = getRetryPolicy False ''load_balancer''\<rparr>])"
  by (simp add: Delete_def Delete_request_def D_Id_def getter_defs example_defs Let_def)

section \<open>Registration of the DRG route distribution resource\<close>

text \<open>
  Claim C5. After \<open>init\<close> the global table maps \<open>oci_core_drg_route_distribution\<close> to
  the resource that \<open>CoreDrgRouteDistributionResource\<close> returns, and the create, read,
  update and delete entries of that resource are the four adapter functions of the file.
\<close>

theorem init_registers_CoreDrgRouteDistributionResource:
  "init resources ''oci_core_drg_route_distribution'' = Some CoreDrgRouteDistributionResource
   \<and> Create_func CoreDrgRouteDistributionResource = createCoreDrgRouteDistribution
   \<and> Read_func CoreDrgRouteDistributionResource = readCoreDrgRouteDistribution
   \<and> Update_func CoreDrgRouteDistributionResource = updateCoreDrgRouteDistribution
   \<and> Delete_func CoreDrgRouteDistributionResource = deleteCoreDrgRouteDistribution"
  by (simp add: init_def RegisterResource_def CoreDrgRouteDistributionResource_def)

theorem init_registers_CoreDrgRouteDistributionResource_witness:
  "init Map.empty ''oci_core_drg_route_distribution'' = Some CoreDrgRouteDistributionResource
   \<and> Create_func CoreDrgRouteDistributionResource = createCoreDrgRouteDistribution"
  using init_registers_CoreDrgRouteDistributionResource [of Map.empty] by simp

section \<open>The accessors of \<open>WorkItemTypeEnum\<close>\<close>

lemmas WorkItemType_defs =
  WorkItemTypeLcm_def WorkItemTypeJfrCapture_def WorkItemTypeJfrUpload_def
  WorkItemTypeCryptoAnalysis_def WorkItemTypeCryptoAnalysisMerge_def
  WorkItemTypeAdvancedUsageTracking_def WorkItemTypePerformanceTuning_def
  WorkItemTypeJmigrateAnalysis_def

lemma set_append_values:
  "set (append_values m values order)
     = set values \<union> {v. \<exists>k \<in> set order. map_of m k = Some v}"
  by (induction order arbitrary: "values") (auto split: option.splits)

lemma range_values:
  assumes "distinct (map fst m)" "range_order m order"
  shows "set (append_values m [] order) = snd ` set m"
proof -
  have "{v. \<exists>k \<in> set order. map_of m k = Some v} = snd ` set m"
  proof (intro set_eqI iffI)
    fix v assume "v \<in> {v. \<exists>k \<in> set order. map_of m k = Some v}"
    then obtain k where "map_of m k = Some v" by blast
    then have "(k, v) \<in> set m" by (rule map_of_SomeD)
    then show "v \<in> snd ` set m" by force
  next
    fix v assume "v \<in> snd ` set m"
    then obtain k where kv: "(k, v) \<in> set m" by auto
    then have "map_of m k = Some v" using assms(1) by simp
    moreover have "k \<in> set order" using kv assms(2) by (force simp: range_order_def)
    ultimately show "v \<in> {v. \<exists>k \<in> set order. map_of m k = Some v}" by blast
  qed
  then show ?thesis by (simp add: set_append_values)
qed

lemma distinct_mapping: "distinct (map fst mappingWorkItemTypeEnum)"
  by (simp add: mappingWorkItemTypeEnum_def)

lemma distinct_mapping_lower: "distinct (map fst mappingWorkItemTypeEnumLowerCase)"
  by (simp add: mappingWorkItemTypeEnumLowerCase_def)

lemma ToLower_constants:
  "ToLower unicodeLower WorkItemTypeLcm = ''lcm''"
  "ToLower unicodeLower WorkItemTypeJfrCapture = ''jfr_capture''"
  "ToLower unicodeLower WorkItemTypeJfrUpload = ''jfr_upload''"
  "ToLower unicodeLower WorkItemTypeCryptoAnalysis = ''crypto_analysis''"
  "ToLower unicodeLower WorkItemTypeCryptoAnalysisMerge = ''crypto_analysis_merge''"
  "ToLower unicodeLower WorkItemTypeAdvancedUsageTracking = ''advanced_usage_tracking''"
  "ToLower unicodeLower WorkItemTypePerformanceTuning = ''performance_tuning''"
  "ToLower unicodeLower WorkItemTypeJmigrateAnalysis = ''jmigrate_analysis''"
  by (simp_all add: ToLower_def lower_byte_def code_def WorkItemType_defs char_of_eq_iff)

lemma GetMapping_Some:
  "GetMappingWorkItemTypeEnum unicodeLower val = (e, True)
     \<longleftrightarrow> (ToLower unicodeLower val, e) \<in> set mappingWorkItemTypeEnumLowerCase"
proof -
  have "GetMappingWorkItemTypeEnum unicodeLower val = (e, True)
     \<longleftrightarrow> map_of mappingWorkItemTypeEnumLowerCase (ToLower unicodeLower val) = Some e"
    by (simp add: GetMappingWorkItemTypeEnum_def split: option.splits)
  then show ?thesis
    using distinct_mapping_lower by simp
qed

lemma GetMapping_None:
  assumes "\<not> (\<exists>e. (ToLower unicodeLower val, e) \<in> set mappingWorkItemTypeEnumLowerCase)"
  shows "GetMappingWorkItemTypeEnum unicodeLower val = ('''', False)"
proof (cases "map_of mappingWorkItemTypeEnumLowerCase (ToLower unicodeLower val)")
  case None
  then show ?thesis by (simp add: GetMappingWorkItemTypeEnum_def)
next
  case (Some e)
  then have "(ToLower unicodeLower val, e) \<in> set mappingWorkItemTypeEnumLowerCase"
    by (rule map_of_SomeD)
  with assms show ?thesis by blast
qed

lemma lower_case_map:
  "mappingWorkItemTypeEnumLowerCase
     = map (\<lambda>e. (ToLower unicodeLower e, e)) WorkItemTypeEnum_constants"
  by (simp add: mappingWorkItemTypeEnumLowerCase_def WorkItemTypeEnum_constants_def
        ToLower_constants)

lemma lower_entries:
  "(l, e) \<in> set mappingWorkItemTypeEnumLowerCase
     \<longleftrightarrow> e \<in> set WorkItemTypeEnum_constants \<and> l = ToLower unicodeLower e"
  unfolding lower_case_map [of unicodeLower] by auto

lemma lower_injective:
  assumes "e \<in> set WorkItemTypeEnum_constants" "e' \<in> set WorkItemTypeEnum_constants"
    and "ToLower unicodeLower e = ToLower unicodeLower e'"
  shows "e = e'"
proof -
  have "(ToLower unicodeLower e, e) \<in> set mappingWorkItemTypeEnumLowerCase"
    using assms(1) by (simp add: lower_entries [of _ _ unicodeLower])
  then have 1: "map_of mappingWorkItemTypeEnumLowerCase (ToLower unicodeLower e) = Some e"
    using distinct_mapping_lower by simp
  have "(ToLower unicodeLower e, e') \<in> set mappingWorkItemTypeEnumLowerCase"
    using assms(2,3) by (simp add: lower_entries [of _ _ unicodeLower])
  then have 2: "map_of mappingWorkItemTypeEnumLowerCase (ToLower unicodeLower e) = Some e'"
    using distinct_mapping_lower by simp
  from 1 2 show ?thesis by simp
qed

text \<open>
  Claim C6. Whatever order the map is ranged over in, the values
  \<open>GetWorkItemTypeEnumValues\<close> returns are, as a set, the eight declared constants; the
  strings \<open>GetWorkItemTypeEnumStringValues\<close> returns are the string forms of those
  constants; \<open>GetMappingWorkItemTypeEnum val\<close> returns \<open>(e, true)\<close> if and only if \<open>e\<close> is
  a declared constant whose lower-case form is the lower-case form of \<open>val\<close>; at most one
  constant has that form; and when none has, the result is the empty value with \<open>false\<close>.
\<close>

theorem WorkItemTypeEnum_accessors:
  "(range_order mappingWorkItemTypeEnum order
      \<longrightarrow> set (GetWorkItemTypeEnumValues order) = set WorkItemTypeEnum_constants)
   \<and> GetWorkItemTypeEnumStringValues = WorkItemTypeEnum_constants
   \<and> (GetMappingWorkItemTypeEnum unicodeLower val = (e, True)
        \<longleftrightarrow> e \<in> set WorkItemTypeEnum_constants
            \<and> ToLower unicodeLower val = ToLower unicodeLower e)
   \<and> (\<forall>e \<in> set WorkItemTypeEnum_constants. \<forall>e' \<in> set WorkItemTypeEnum_constants.
          ToLower unicodeLower val = ToLower unicodeLower e
          \<and> ToLower unicodeLower val = ToLower unicodeLower e' \<longrightarrow> e = e')
   \<and> ((\<forall>e \<in> set WorkItemTypeEnum_constants.
           ToLower unicodeLower val \<noteq> ToLower unicodeLower e)
        \<longrightarrow> GetMappingWorkItemTypeEnum unicodeLower val = ('''', False))"
proof (intro conjI impI ballI)
  assume "range_order mappingWorkItemTypeEnum order"
  with distinct_mapping
  have "set (append_values mappingWorkItemTypeEnum [] order) = snd ` set mappingWorkItemTypeEnum"
    by (rule range_values)
  then show "set (GetWorkItemTypeEnumValues order) = set WorkItemTypeEnum_constants"
    by (simp add: GetWorkItemTypeEnumValues_def mappingWorkItemTypeEnum_def
          WorkItemTypeEnum_constants_def)
next
  show "GetWorkItemTypeEnumStringValues = WorkItemTypeEnum_constants"
    by (simp add: GetWorkItemTypeEnumStringValues_def WorkItemTypeEnum_constants_def
          WorkItemType_defs)
next
  show "GetMappingWorkItemTypeEnum unicodeLower val = (e, True)
        \<longleftrightarrow> e \<in> set WorkItemTypeEnum_constants
            \<and> ToLower unicodeLower val = ToLower unicodeLower e"
    unfolding GetMapping_Some by (rule lower_entries)
next
  fix e e'
  assume m: "e \<in> set WorkItemTypeEnum_constants" "e' \<in> set WorkItemTypeEnum_constants"
    and l: "ToLower unicodeLower val = ToLower unicodeLower e
       \<and> ToLower unicodeLower val = ToLower unicodeLower e'"
  from l have a: "ToLower unicodeLower val = ToLower unicodeLower e" by (rule conjunct1)
  from l have b: "ToLower unicodeLower val = ToLower unicodeLower e'" by (rule conjunct2)
  from a [symmetric] b have "ToLower unicodeLower e = ToLower unicodeLower e'" by (rule trans)
  with m show "e = e'" by (rule lower_injective)
next
  assume n: "\<forall>e \<in> set WorkItemTypeEnum_constants.
           ToLower unicodeLower val \<noteq> ToLower unicodeLower e"
  have "\<not> (\<exists>e. (ToLower unicodeLower val, e) \<in> set mappingWorkItemTypeEnumLowerCase)"
    using n lower_entries [of "ToLower unicodeLower val" _ unicodeLower] by blast
  then show "GetMappingWorkItemTypeEnum unicodeLower val = ('''', False)"
    by (rule GetMapping_None)
qed

theorem WorkItemTypeEnum_accessors_witness:
  "range_order mappingWorkItemTypeEnum (rev (map fst mappingWorkItemTypeEnum))
   \<and> set (GetWorkItemTypeEnumValues (rev (map fst mappingWorkItemTypeEnum)))
       = set WorkItemTypeEnum_constants
   \<and> GetWorkItemTypeEnumValues (rev (map fst mappingWorkItemTypeEnum))
       = rev WorkItemTypeEnum_constants
   \<and> WorkItemTypeJfrUpload \<in> set WorkItemTypeEnum_constants
   \<and> ToLower id ''Jfr_Upload'' = ToLower id WorkItemTypeJfrUpload
   \<and> GetMappingWorkItemTypeEnum id ''Jfr_Upload'' = (WorkItemTypeJfrUpload, True)
   \<and> GetMappingWorkItemTypeEnum id ''Jfr Upload'' = ('''', False)"
proof -
  have o: "range_order mappingWorkItemTypeEnum (rev (map fst mappingWorkItemTypeEnum))"
    by (simp add: range_order_def distinct_mapping)
  note t = WorkItemTypeEnum_accessors
             [of "rev (map fst mappingWorkItemTypeEnum)" id "''Jfr_Upload''" WorkItemTypeJfrUpload]
  have 1: "set (GetWorkItemTypeEnumValues (rev (map fst mappingWorkItemTypeEnum)))
       = set WorkItemTypeEnum_constants"
    using t [THEN conjunct1] o by (rule mp)
  have 2: "GetWorkItemTypeEnumValues (rev (map fst mappingWorkItemTypeEnum))
       = rev WorkItemTypeEnum_constants"
    by (simp add: GetWorkItemTypeEnumValues_def mappingWorkItemTypeEnum_def
          WorkItemTypeEnum_constants_def WorkItemType_defs)
  have 3: "WorkItemTypeJfrUpload \<in> set WorkItemTypeEnum_constants"
    by (simp add: WorkItemTypeEnum_constants_def)
  have 4: "ToLower id ''Jfr_Upload'' = ToLower id WorkItemTypeJfrUpload"
    unfolding ToLower_constants
    by (simp add: ToLower_def lower_byte_def code_def char_of_eq_iff)
  have 5: "GetMappingWorkItemTypeEnum id ''Jfr_Upload'' = (WorkItemTypeJfrUpload, True)"
    using t [THEN conjunct2, THEN conjunct2, THEN conjunct1] 3 4 by simp
  have 6: "GetMappingWorkItemTypeEnum id ''Jfr Upload'' = ('''', False)"
    by (simp add: GetMappingWorkItemTypeEnum_def ToLower_def lower_byte_def code_def
          char_of_eq_iff mappingWorkItemTypeEnumLowerCase_def)
  show ?thesis by (intro conjI) (rule o 1 2 3 4 5 6)+
qed

section \<open>The methods of \<open>PatchTypeConfigCategoryDetails\<close>\<close>

text \<open>
  Claim C7. For every value of \<open>PatchTypeConfigCategoryDetails\<close>, \<open>MarshalJSON\<close> succeeds
  and writes the JSON object whose one member is the discriminator \<open>configCategory\<close> with
  the value \<open>PATCH_TYPE\<close>, \<open>ValidateEnumValue\<close> returns \<open>(false, nil)\<close>, and \<open>String\<close>
  is the pointer string of the value.
\<close>

theorem PatchTypeConfigCategoryDetails_methods:
  "MarshalJSON m
     = (''{'' @ json_string ''configCategory'' @ '':'' @ json_string ''PATCH_TYPE'' @ ''}'', None)
   \<and> json_string ''configCategory'' = CHR 0x22 # ''configCategory'' @ [CHR 0x22]
   \<and> json_string ''PATCH_TYPE'' = CHR 0x22 # ''PATCH_TYPE'' @ [CHR 0x22]
   \<and> ValidateEnumValue m = (False, None)
   \<and> String PointerString m = PointerString m"
proof (intro conjI)
  show "MarshalJSON m
     = (''{'' @ json_string ''configCategory'' @ '':'' @ json_string ''PATCH_TYPE'' @ ''}'', None)"
    by (simp add: MarshalJSON_def json_Marshal_def json_fields_def)
  show "json_string ''configCategory'' = CHR 0x22 # ''configCategory'' @ [CHR 0x22]"
    by (simp add: json_string_def json_byte_def code_def)
  show "json_string ''PATCH_TYPE'' = CHR 0x22 # ''PATCH_TYPE'' @ [CHR 0x22]"
    by (simp add: json_string_def json_byte_def code_def)
  show "ValidateEnumValue m = (False, None)"
    by (simp add: ValidateEnumValue_def)
  show "String PointerString m = PointerString m"
    by (simp add: String_def)
qed

theorem PatchTypeConfigCategoryDetails_methods_witness:
  "MarshalJSON PatchTypeConfigCategoryDetails
     = (''{'' @ [CHR 0x22] @ ''configCategory'' @ [CHR 0x22] @ '':''
          @ [CHR 0x22] @ ''PATCH_TYPE'' @ [CHR 0x22] @ ''}'', None)
   \<and> ValidateEnumValue PatchTypeConfigCategoryDetails = (False, None)"
  using PatchTypeConfigCategoryDetails_methods [of PatchTypeConfigCategoryDetails] by simp

section \<open>The frame of \<open>SetData\<close>\<close>

lemma attrs_D_Set: "rd_attrs (D_Set d k v) key = (if key = k then Some v else rd_attrs d key)"
  by (simp add: D_Set_def)

lemma id_D_Set: "D_Id (D_Set d k v) = D_Id d"
  by (simp add: D_Set_def D_Id_def)

lemma step_frame:
  "x = None \<or> key \<noteq> k \<Longrightarrow>
   rd_attrs (case x of None \<Rightarrow> d | Some v \<Rightarrow> D_Set d k (f v)) key = rd_attrs d key"
  by (cases x) (auto simp: attrs_D_Set)

lemma step_set:
  "rd_attrs (case Some v of None \<Rightarrow> d | Some v \<Rightarrow> D_Set d k (f v)) k = Some (f v)"
  by (simp add: attrs_D_Set)

lemma step_id: "D_Id (case x of None \<Rightarrow> d | Some v \<Rightarrow> D_Set d k (f v)) = D_Id d"
  by (cases x) (simp_all add: id_D_Set)

lemma SetData_chain:
  assumes r: "Res s = Some res"
    and p: "parseBackendCompositeId (D_Id (D s)) = (backendName, backendSetName, loadBalancerId, err)"
    and d1: "d1 = (if err = None
                   then D_Set (D_Set (D_Set (D s) ''name'' (VString backendName))
                                 ''backendset_name'' (VString backendSetName))
                          ''load_balancer_id'' (VString loadBalancerId)
                   else D s)"
    and d2: "d2 = (case Backend.Backup res of None \<Rightarrow> d1 | Some v \<Rightarrow> D_Set d1 ''backup'' (VBool v))"
    and d3: "d3 = (case Backend.Drain res of None \<Rightarrow> d2 | Some v \<Rightarrow> D_Set d2 ''drain'' (VBool v))"
    and d4: "d4 = (case Backend.IpAddress res of None \<Rightarrow> d3 | Some v \<Rightarrow> D_Set d3 ''ip_address'' (VString v))"
    and d5: "d5 = (case Name res of None \<Rightarrow> d4 | Some v \<Rightarrow> D_Set d4 ''name'' (VString v))"
    and d6: "d6 = (case Backend.Offline res of None \<Rightarrow> d5 | Some v \<Rightarrow> D_Set d5 ''offline'' (VBool v))"
    and d7: "d7 = (case Backend.Port res of None \<Rightarrow> d6 | Some v \<Rightarrow> D_Set d6 ''port'' (VInt v))"
    and d8: "d8 = (case Backend.Weight res of None \<Rightarrow> d7 | Some v \<Rightarrow> D_Set d7 ''weight'' (VInt v))"
  shows "SetData s = (None, s\<lparr>D := d8\<rparr>)"
  unfolding SetData_def r p d8 d7 d6 d5 d4 d3 d2 d1 Let_def option.case prod.case
  by (rule refl)


lemma step_keep:
  "key \<noteq> k \<Longrightarrow>
   rd_attrs (case x of None \<Rightarrow> d | Some v \<Rightarrow> D_Set d k (f v)) key = rd_attrs d key"
  by (rule step_frame) simp

text \<open>
  Claim C9. When the fetched response is \<open>nil\<close>, \<open>SetData\<close> returns \<open>nil\<close> and changes
  nothing. Otherwise it returns \<open>nil\<close>, leaves the identifier as it is, and leaves every
  key as it is but the keys of the response fields that are not \<open>nil\<close> and, when the
  identifier parses as a composite identifier, \<open>name\<close>, \<open>backendset_name\<close> and
  \<open>load_balancer_id\<close>; those keys get the values of the response and of the identifier,
  the name of the response taking precedence over the name in the identifier.
\<close>

theorem SetData_frame:
  "(Res s = None \<longrightarrow> SetData s = (None, s))
   \<and> (Res s = Some res \<longrightarrow>
        (\<exists>d'. SetData s = (None, s\<lparr>D := d'\<rparr>)
          \<and> D_Id d' = D_Id (D s)
          \<and> (\<forall>key. key \<notin>
                 (case parseBackendCompositeId (D_Id (D s)) of
                    (backendName, backendSetName, loadBalancerId, err) \<Rightarrow>
                      if err = None then {''name'', ''backendset_name'', ''load_balancer_id''} else {})
                 \<union> (case Backend.Backup res of None \<Rightarrow> {} | Some v \<Rightarrow> {''backup''})
                 \<union> (case Backend.Drain res of None \<Rightarrow> {} | Some v \<Rightarrow> {''drain''})
                 \<union> (case Backend.IpAddress res of None \<Rightarrow> {} | Some v \<Rightarrow> {''ip_address''})
                 \<union> (case Name res of None \<Rightarrow> {} | Some v \<Rightarrow> {''name''})
                 \<union> (case Backend.Offline res of None \<Rightarrow> {} | Some v \<Rightarrow> {''offline''})
                 \<union> (case Backend.Port res of None \<Rightarrow> {} | Some v \<Rightarrow> {''port''})
                 \<union> (case Backend.Weight res of None \<Rightarrow> {} | Some v \<Rightarrow> {''weight''})
               \<longrightarrow> rd_attrs d' key = rd_attrs (D s) key)
          \<and> (\<forall>v. Backend.Backup res = Some v \<longrightarrow> rd_attrs d' ''backup'' = Some (VBool v))
          \<and> (\<forall>v. Backend.Drain res = Some v \<longrightarrow> rd_attrs d' ''drain'' = Some (VBool v))
          \<and> (\<forall>v. Backend.IpAddress res = Some v \<longrightarrow> rd_attrs d' ''ip_address'' = Some (VString v))
          \<and> (\<forall>v. Name res = Some v \<longrightarrow> rd_attrs d' ''name'' = Some (VString v))
          \<and> (\<forall>v. Backend.Offline res = Some v \<longrightarrow> rd_attrs d' ''offline'' = Some (VBool v))
          \<and> (\<forall>v. Backend.Port res = Some v \<longrightarrow> rd_attrs d' ''port'' = Some (VInt v))
          \<and> (\<forall>v. Backend.Weight res = Some v \<longrightarrow> rd_attrs d' ''weight'' = Some (VInt v))
          \<and> (\<forall>backendName backendSetName loadBalancerId.
                 parseBackendCompositeId (D_Id (D s)) = (backendName, backendSetName, loadBalancerId, None)
                 \<longrightarrow> rd_attrs d' ''backendset_name'' = Some (VString backendSetName)
                   \<and> rd_attrs d' ''load_balancer_id'' = Some (VString loadBalancerId)
                   \<and> (Name res = None \<longrightarrow> rd_attrs d' ''name'' = Some (VString backendName)))))"
proof (intro conjI impI)
  assume "Res s = None"
  then show "SetData s = (None, s)" by (simp add: SetData_def)
next
  assume r: "Res s = Some res"
  obtain pn ps pl err
    where p: "parseBackendCompositeId (D_Id (D s)) = (pn, ps, pl, err)"
    by (cases "parseBackendCompositeId (D_Id (D s))") auto
  define d1 where d1: "d1 = (if err = None
                   then D_Set (D_Set (D_Set (D s) ''name'' (VString pn))
                                 ''backendset_name'' (VString ps))
                          ''load_balancer_id'' (VString pl)
                   else D s)"
  define d2 where d2: "d2 = (case Backend.Backup res of None \<Rightarrow> d1 | Some v \<Rightarrow> D_Set d1 ''backup'' (VBool v))"
  define d3 where d3: "d3 = (case Backend.Drain res of None \<Rightarrow> d2 | Some v \<Rightarrow> D_Set d2 ''drain'' (VBool v))"
  define d4 where d4: "d4 = (case Backend.IpAddress res of None \<Rightarrow> d3 | Some v \<Rightarrow> D_Set d3 ''ip_address'' (VString v))"
  define d5 where d5: "d5 = (case Name res of None \<Rightarrow> d4 | Some v \<Rightarrow> D_Set d4 ''name'' (VString v))"
  define d6 where d6: "d6 = (case Backend.Offline res of None \<Rightarrow> d5 | Some v \<Rightarrow> D_Set d5 ''offline'' (VBool v))"
  define d7 where d7: "d7 = (case Backend.Port res of None \<Rightarrow> d6 | Some v \<Rightarrow> D_Set d6 ''port'' (VInt v))"
  define d8 where d8: "d8 = (case Backend.Weight res of None \<Rightarrow> d7 | Some v \<Rightarrow> D_Set d7 ''weight'' (VInt v))"
  have sd: "SetData s = (None, s\<lparr>D := d8\<rparr>)"
    using r p d1 d2 d3 d4 d5 d6 d7 d8 by (rule SetData_chain)
  have ident: "D_Id d8 = D_Id (D s)"
    by (simp add: d8 d7 d6 d5 d4 d3 d2 d1 step_id id_D_Set)
  have frame: "rd_attrs d8 key = rd_attrs (D s) key"
    if k: "key \<notin>
                 (case parseBackendCompositeId (D_Id (D s)) of
                    (backendName, backendSetName, loadBalancerId, err) \<Rightarrow>
                      if err = None then {''name'', ''backendset_name'', ''load_balancer_id''} else {})
                 \<union> (case Backend.Backup res of None \<Rightarrow> {} | Some v \<Rightarrow> {''backup''})
                 \<union> (case Backend.Drain res of None \<Rightarrow> {} | Some v \<Rightarrow> {''drain''})
                 \<union> (case Backend.IpAddress res of None \<Rightarrow> {} | Some v \<Rightarrow> {''ip_address''})
                 \<union> (case Name res of None \<Rightarrow> {} | Some v \<Rightarrow> {''name''})
                 \<union> (case Backend.Offline res of None \<Rightarrow> {} | Some v \<Rightarrow> {''offline''})
                 \<union> (case Backend.Port res of None \<Rightarrow> {} | Some v \<Rightarrow> {''port''})
                 \<union> (case Backend.Weight res of None \<Rightarrow> {} | Some v \<Rightarrow> {''weight''})"
    for key
  proof -
    have k1: "err = None \<longrightarrow> key \<noteq> ''name'' \<and> key \<noteq> ''backendset_name'' \<and> key \<noteq> ''load_balancer_id''"
      using k unfolding p by (cases err) simp_all
    have k2: "Backend.Backup res = None \<or> key \<noteq> ''backup''"
      using k by (cases "Backend.Backup res") simp_all
    have k3: "Backend.Drain res = None \<or> key \<noteq> ''drain''"
      using k by (cases "Backend.Drain res") simp_all
    have k4: "Backend.IpAddress res = None \<or> key \<noteq> ''ip_address''"
      using k by (cases "Backend.IpAddress res") simp_all
    have k5: "Name res = None \<or> key \<noteq> ''name''"
      using k by (cases "Name res") simp_all
    have k6: "Backend.Offline res = None \<or> key \<noteq> ''offline''"
      using k by (cases "Backend.Offline res") simp_all
    have k7: "Backend.Port res = None \<or> key \<noteq> ''port''"
      using k by (cases "Backend.Port res") simp_all
    have k8: "Backend.Weight res = None \<or> key \<noteq> ''weight''"
      using k by (cases "Backend.Weight res") simp_all
    have "rd_attrs d8 key = rd_attrs d7 key" unfolding d8 using k8 by (rule step_frame)
    also have "\<dots> = rd_attrs d6 key" unfolding d7 using k7 by (rule step_frame)
    also have "\<dots> = rd_attrs d5 key" unfolding d6 using k6 by (rule step_frame)
    also have "\<dots> = rd_attrs d4 key" unfolding d5 using k5 by (rule step_frame)
    also have "\<dots> = rd_attrs d3 key" unfolding d4 using k4 by (rule step_frame)
    also have "\<dots> = rd_attrs d2 key" unfolding d3 using k3 by (rule step_frame)
    also have "\<dots> = rd_attrs d1 key" unfolding d2 using k2 by (rule step_frame)
    also have "\<dots> = rd_attrs (D s) key" using k1 by (simp add: d1 attrs_D_Set)
    finally show ?thesis .
  qed
  have backup: "rd_attrs d8 ''backup'' = Some (VBool v)" if "Backend.Backup res = Some v" for v
  proof -
    have "rd_attrs d8 ''backup'' = rd_attrs d2 ''backup''"
      by (simp add: d8 d7 d6 d5 d4 d3 step_keep)
    then show ?thesis using that by (simp add: d2 attrs_D_Set)
  qed
  have drain: "rd_attrs d8 ''drain'' = Some (VBool v)" if "Backend.Drain res = Some v" for v
  proof -
    have "rd_attrs d8 ''drain'' = rd_attrs d3 ''drain''"
      by (simp add: d8 d7 d6 d5 d4 step_keep)
    then show ?thesis using that by (simp add: d3 attrs_D_Set)
  qed
  have ip: "rd_attrs d8 ''ip_address'' = Some (VString v)" if "Backend.IpAddress res = Some v" for v
  proof -
    have "rd_attrs d8 ''ip_address'' = rd_attrs d4 ''ip_address''"
      by (simp add: d8 d7 d6 d5 step_keep)
    then show ?thesis using that by (simp add: d4 attrs_D_Set)
  qed
  have name: "rd_attrs d8 ''name'' = Some (VString v)" if "Name res = Some v" for v
  proof -
    have "rd_attrs d8 ''name'' = rd_attrs d5 ''name''"
      by (simp add: d8 d7 d6 step_keep)
    then show ?thesis using that by (simp add: d5 attrs_D_Set)
  qed
  have offline: "rd_attrs d8 ''offline'' = Some (VBool v)" if "Backend.Offline res = Some v" for v
  proof -
    have "rd_attrs d8 ''offline'' = rd_attrs d6 ''offline''"
      by (simp add: d8 d7 step_keep)
    then show ?thesis using that by (simp add: d6 attrs_D_Set)
  qed
  have port: "rd_attrs d8 ''port'' = Some (VInt v)" if "Backend.Port res = Some v" for v
  proof -
    have "rd_attrs d8 ''port'' = rd_attrs d7 ''port''"
      by (simp add: d8 step_keep)
    then show ?thesis using that by (simp add: d7 attrs_D_Set)
  qed
  have weight: "rd_attrs d8 ''weight'' = Some (VInt v)" if "Backend.Weight res = Some v" for v
    using that by (simp add: d8 attrs_D_Set)
  have parsed_set: "rd_attrs d8 ''backendset_name'' = Some (VString backendSetName)"
    if q: "parseBackendCompositeId (D_Id (D s)) = (backendName, backendSetName, loadBalancerId, None)"
    for backendName backendSetName loadBalancerId
  proof -
    from p q have e: "ps = backendSetName" "err = None" by simp_all
    have "rd_attrs d8 ''backendset_name'' = rd_attrs d1 ''backendset_name''"
      by (simp add: d8 d7 d6 d5 d4 d3 d2 step_keep)
    then show ?thesis using e by (simp add: d1 attrs_D_Set)
  qed
  have parsed_lb: "rd_attrs d8 ''load_balancer_id'' = Some (VString loadBalancerId)"
    if q: "parseBackendCompositeId (D_Id (D s)) = (backendName, backendSetName, loadBalancerId, None)"
    for backendName backendSetName loadBalancerId
  proof -
    from p q have e: "pl = loadBalancerId" "err = None" by simp_all
    have "rd_attrs d8 ''load_balancer_id'' = rd_attrs d1 ''load_balancer_id''"
      by (simp add: d8 d7 d6 d5 d4 d3 d2 step_keep)
    then show ?thesis using e by (simp add: d1 attrs_D_Set)
  qed
  have parsed_name: "rd_attrs d8 ''name'' = Some (VString backendName)"
    if q: "parseBackendCompositeId (D_Id (D s)) = (backendName, backendSetName, loadBalancerId, None)"
      and n: "Name res = None"
    for backendName backendSetName loadBalancerId
  proof -
    from p q have e: "pn = backendName" "err = None" by simp_all
    have 3: "rd_attrs d8 ''name'' = rd_attrs d5 ''name''"
      by (simp add: d8 d7 d6 step_keep)
    have 5: "rd_attrs d5 ''name'' = rd_attrs d4 ''name''"
      using n by (simp add: d5)
    have 4: "rd_attrs d4 ''name'' = rd_attrs d1 ''name''"
      by (simp add: d4 d3 d2 step_keep)
    show ?thesis
      using 3 4 5 e by (simp add: d1 attrs_D_Set)
  qed
  show "\<exists>d'. SetData s = (None, s\<lparr>D := d'\<rparr>)
          \<and> D_Id d' = D_Id (D s)
          \<and> (\<forall>key. key \<notin>
                 (case parseBackendCompositeId (D_Id (D s)) of
                    (backendName, backendSetName, loadBalancerId, err) \<Rightarrow>
                      if err = None then {''name'', ''backendset_name'', ''load_balancer_id''} else {})
                 \<union> (case Backend.Backup res of None \<Rightarrow> {} | Some v \<Rightarrow> {''backup''})
                 \<union> (case Backend.Drain res of None \<Rightarrow> {} | Some v \<Rightarrow> {''drain''})
                 \<union> (case Backend.IpAddress res of None \<Rightarrow> {} | Some v \<Rightarrow> {''ip_address''})
                 \<union> (case Name res of None \<Rightarrow> {} | Some v \<Rightarrow> {''name''})
                 \<union> (case Backend.Offline res of None \<Rightarrow> {} | Some v \<Rightarrow> {''offline''})
                 \<union> (case Backend.Port res of None \<Rightarrow> {} | Some v \<Rightarrow> {''port''})
                 \<union> (case Backend.Weight res of None \<Rightarrow> {} | Some v \<Rightarrow> {''weight''})
               \<longrightarrow> rd_attrs d' key = rd_attrs (D s) key)
          \<and> (\<forall>v. Backend.Backup res = Some v \<longrightarrow> rd_attrs d' ''backup'' = Some (VBool v))
          \<and> (\<forall>v. Backend.Drain res = Some v \<longrightarrow> rd_attrs d' ''drain'' = Some (VBool v))
          \<and> (\<forall>v. Backend.IpAddress res = Some v \<longrightarrow> rd_attrs d' ''ip_address'' = Some (VString v))
          \<and> (\<forall>v. Name res = Some v \<longrightarrow> rd_attrs d' ''name'' = Some (VString v))
          \<and> (\<forall>v. Backend.Offline res = Some v \<longrightarrow> rd_attrs d' ''offline'' = Some (VBool v))
          \<and> (\<forall>v. Backend.Port res = Some v \<longrightarrow> rd_attrs d' ''port'' = Some (VInt v))
          \<and> (\<forall>v. Backend.Weight res = Some v \<longrightarrow> rd_attrs d' ''weight'' = Some (VInt v))
          \<and> (\<forall>backendName backendSetName loadBalancerId.
                 parseBackendCompositeId (D_Id (D s)) = (backendName, backendSetName, loadBalancerId, None)
                 \<longrightarrow> rd_attrs d' ''backendset_name'' = Some (VString backendSetName)
                   \<and> rd_attrs d' ''load_balancer_id'' = Some (VString loadBalancerId)
                   \<and> (Name res = None \<longrightarrow> rd_attrs d' ''name'' = Some (VString backendName)))"
    by (intro exI [of _ d8] conjI allI impI)
      (rule sd ident | erule frame backup drain ip name offline port weight parsed_set parsed_lb
        | (erule parsed_name, assumption))+
qed

lemma parse_example:
  "parseBackendCompositeId ''loadBalancers/lb1/backendSets/bs1/backends/10.0.0.3:8080''
     = (''10.0.0.3:8080'', ''bs1'', ''lb1'', None)"
  by code_simp

theorem SetData_frame_witness:
  "Res (example_crud\<lparr>Res := Some example_backend\<rparr>) = Some example_backend
   \<and> (\<exists>d'. SetData (example_crud\<lparr>Res := Some example_backend\<rparr>)
               = (None, example_crud\<lparr>Res := Some example_backend, D := d'\<rparr>)
         \<and> D_Id d' = ''loadBalancers/lb1/backendSets/bs1/backends/10.0.0.3:8080''
         \<and> rd_attrs d' ''backup'' = Some (VBool True)
         \<and> rd_attrs d' ''port'' = Some (VInt 8080)
         \<and> rd_attrs d' ''backendset_name'' = Some (VString ''bs1'')
         \<and> rd_attrs d' ''weight'' = None
         \<and> rd_attrs d' ''state'' = None)"
proof -
  let ?s = "example_crud\<lparr>Res := Some example_backend\<rparr>"
  have r: "Res ?s = Some example_backend" by simp
  have i: "D_Id (D ?s) = ''loadBalancers/lb1/backendSets/bs1/backends/10.0.0.3:8080''"
    by (simp add: D_Id_def example_defs)
  note f = SetData_frame [of ?s example_backend, THEN conjunct2, THEN mp, OF r]
  from f obtain d' where d:
    "SetData ?s = (None, ?s\<lparr>D := d'\<rparr>)"
    "D_Id d' = D_Id (D ?s)"
    "\<forall>key. key \<notin>
                 (case parseBackendCompositeId (D_Id (D ?s)) of
                    (backendName, backendSetName, loadBalancerId, err) \<Rightarrow>
                      if err = None then {''name'', ''backendset_name'', ''load_balancer_id''} else {})
                 \<union> (case Backend.Backup example_backend of None \<Rightarrow> {} | Some v \<Rightarrow> {''backup''})
                 \<union> (case Backend.Drain example_backend of None \<Rightarrow> {} | Some v \<Rightarrow> {''drain''})
                 \<union> (case Backend.IpAddress example_backend of None \<Rightarrow> {} | Some v \<Rightarrow> {''ip_address''})
                 \<union> (case Name example_backend of None \<Rightarrow> {} | Some v \<Rightarrow> {''name''})
                 \<union> (case Backend.Offline example_backend of None \<Rightarrow> {} | Some v \<Rightarrow> {''offline''})
                 \<union> (case Backend.Port example_backend of None \<Rightarrow> {} | Some v \<Rightarrow> {''port''})
                 \<union> (case Backend.Weight example_backend of None \<Rightarrow> {} | Some v \<Rightarrow> {''weight''})
               \<longrightarrow> rd_attrs d' key = rd_attrs (D ?s) key"
    "\<forall>v. Backend.Backup example_backend = Some v \<longrightarrow> rd_attrs d' ''backup'' = Some (VBool v)"
    "\<forall>v. Backend.Port example_backend = Some v \<longrightarrow> rd_attrs d' ''port'' = Some (VInt v)"
    "\<forall>backendName backendSetName loadBalancerId.
                 parseBackendCompositeId (D_Id (D ?s)) = (backendName, backendSetName, loadBalancerId, None)
                 \<longrightarrow> rd_attrs d' ''backendset_name'' = Some (VString backendSetName)
                   \<and> rd_attrs d' ''load_balancer_id'' = Some (VString loadBalancerId)
                   \<and> (Name example_backend = None \<longrightarrow> rd_attrs d' ''name'' = Some (VString backendName))"
    by (elim exE conjE) (rule that, assumption+)
  have w: "rd_attrs d' ''weight'' = rd_attrs (D ?s) ''weight''"
    using d(3) [rule_format, of "''weight''"] unfolding i parse_example
    by (simp add: example_backend_def)
  have st: "rd_attrs d' ''state'' = rd_attrs (D ?s) ''state''"
    using d(3) [rule_format, of "''state''"] unfolding i parse_example
    by (simp add: example_backend_def)
  have b: "rd_attrs d' ''backup'' = Some (VBool True)"
    using d(4) [rule_format, of True] by (simp add: example_backend_def)
  have p: "rd_attrs d' ''port'' = Some (VInt 8080)"
    using d(5) [rule_format, of 8080] by (simp add: example_backend_def)
  have bs: "rd_attrs d' ''backendset_name'' = Some (VString ''bs1'')"
    using d(6) [rule_format, of "''10.0.0.3:8080''" "''bs1''" "''lb1''"] unfolding i parse_example by simp
  have sd: "SetData ?s = (None, example_crud\<lparr>Res := Some example_backend, D := d'\<rparr>)"
    using d(1) by simp
  have i': "D_Id d' = ''loadBalancers/lb1/backendSets/bs1/backends/10.0.0.3:8080''"
    using d(2) i by simp
  have wn: "rd_attrs d' ''weight'' = None" using w by (simp add: example_defs)
  have sn: "rd_attrs d' ''state'' = None" using st by (simp add: example_defs)
  show ?thesis
    by (rule conjI [OF r]) (rule exI [of _ d'], intro conjI, (rule sd i' b p bs wn sn)+)
qed

section \<open>The identifier of a backend\<close>

lemma zero_of_keys:
  "zero_of ''ip_address'' = VString []"
  "zero_of ''backendset_name'' = VString []"
  "zero_of ''load_balancer_id'' = VString []"
  "zero_of ''port'' = VInt 0"
  by (simp_all add: zero_of_def BackendResource_def plain_def zero_value_def)

lemma D_Get_string:
  assumes "conforms d"
    and "key \<in> {''backendset_name'', ''ip_address'', ''load_balancer_id''}"
  shows "\<exists>x. D_Get d key = VString x"
proof (cases "rd_attrs d key")
  case None
  then have "D_Get d key = zero_of key" by (simp add: D_Get_def)
  moreover have "zero_of key = VString []"
    using assms(2) by (elim insertE emptyE) (simp_all add: zero_of_keys)
  ultimately show ?thesis by simp
next
  case (Some v)
  have "key \<in> {''backendset_name'', ''ip_address'', ''load_balancer_id'', ''name'', ''state''}"
    using assms(2) by (elim insertE emptyE) simp_all
  from conforms_string [OF assms(1) Some this]
  obtain x where "v = VString x" ..
  with Some show ?thesis by (simp add: D_Get_def)
qed

lemma D_Get_port:
  assumes "conforms d"
  shows "\<exists>x. D_Get d ''port'' = VInt x"
proof (cases "rd_attrs d ''port''")
  case None
  then show ?thesis by (simp add: D_Get_def zero_of_keys)
next
  case (Some v)
  have "''port'' \<in> {''port'', ''weight''}" by simp
  from conforms_int [OF assms(1) Some this]
  obtain x where "v = VInt x" ..
  with Some show ?thesis by (simp add: D_Get_def)
qed

text \<open>
  With a recorded work request that has failed and carries no identifier, \<open>ID\<close> does not
  return: it dereferences the \<open>nil\<close> identifier.
\<close>

theorem ID_panics_on_nil_Id:
  "BackendResourceCrud.WorkRequest (example_crud\<lparr>WorkRequest := Some failed_work_request\<rparr>)
     = Some failed_work_request
   \<and> LifecycleState failed_work_request \<noteq> WorkRequestLifecycleStateSucceeded
   \<and> ID (example_crud\<lparr>WorkRequest := Some failed_work_request\<rparr>) = Panics"
  by (simp add: ID_def example_defs lifecycle_defs)

text \<open>
  Claim C10, amended. On resource data that conforms to the schema, \<open>ID\<close> returns the
  empty string when no work request is recorded; when the recorded work request is not in
  the state \<open>Succeeded\<close> it returns the identifier of the work request if there is one and
  panics if there is none; and when the recorded work request is in the state
  \<open>Succeeded\<close> it returns the composite identifier built from \<open>ip_address:port\<close>,
  \<open>backendset_name\<close> and \<open>load_balancer_id\<close>.
\<close>

theorem ID_cases:
  assumes "conforms (D s)"
  shows "(BackendResourceCrud.WorkRequest s = None \<longrightarrow> ID s = Returns '''')
   \<and> (\<forall>wr i. BackendResourceCrud.WorkRequest s = Some wr
          \<and> LifecycleState wr \<noteq> WorkRequestLifecycleStateSucceeded \<and> Id wr = Some i
        \<longrightarrow> ID s = Returns i)
   \<and> (\<forall>wr. BackendResourceCrud.WorkRequest s = Some wr
          \<and> LifecycleState wr \<noteq> WorkRequestLifecycleStateSucceeded \<and> Id wr = None
        \<longrightarrow> ID s = Panics)
   \<and> (\<forall>wr. BackendResourceCrud.WorkRequest s = Some wr
          \<and> LifecycleState wr = WorkRequestLifecycleStateSucceeded
        \<longrightarrow> (\<exists>ip_address port backendSetName loadBalancerId.
               D_Get (D s) ''ip_address'' = VString ip_address
             \<and> D_Get (D s) ''port'' = VInt port
             \<and> D_Get (D s) ''backendset_name'' = VString backendSetName
             \<and> D_Get (D s) ''load_balancer_id'' = VString loadBalancerId
             \<and> ID s = Returns (getBackendCompositeId (ip_address @ '':'' @ Itoa port)
                                 backendSetName loadBalancerId)))"
proof -
  obtain ip where ip: "D_Get (D s) ''ip_address'' = VString ip"
    using D_Get_string [OF assms, of "''ip_address''"] by auto
  obtain port where port: "D_Get (D s) ''port'' = VInt port"
    using D_Get_port [OF assms] by auto
  obtain bs where bs: "D_Get (D s) ''backendset_name'' = VString bs"
    using D_Get_string [OF assms, of "''backendset_name''"] by auto
  obtain lb where lb: "D_Get (D s) ''load_balancer_id'' = VString lb"
    using D_Get_string [OF assms, of "''load_balancer_id''"] by auto
  have b: "buildID s = Returns (ip @ '':'' @ Itoa port)"
    by (simp add: buildID_def ip port as_string_def as_int_def and_then_def)
  have succ: "ID s = Returns (getBackendCompositeId (ip @ '':'' @ Itoa port) bs lb)"
    if "BackendResourceCrud.WorkRequest s = Some wr"
      "LifecycleState wr = WorkRequestLifecycleStateSucceeded" for wr
    using that by (simp add: ID_def b bs lb as_string_def and_then_def)
  show ?thesis
  proof (intro conjI allI impI)
    fix wr
    assume "BackendResourceCrud.WorkRequest s = Some wr
          \<and> LifecycleState wr = WorkRequestLifecycleStateSucceeded"
    then have "ID s = Returns (getBackendCompositeId (ip @ '':'' @ Itoa port) bs lb)"
      using succ by blast
    with ip port bs lb
    show "\<exists>ip_address port backendSetName loadBalancerId.
               D_Get (D s) ''ip_address'' = VString ip_address
             \<and> D_Get (D s) ''port'' = VInt port
             \<and> D_Get (D s) ''backendset_name'' = VString backendSetName
             \<and> D_Get (D s) ''load_balancer_id'' = VString loadBalancerId
             \<and> ID s = Returns (getBackendCompositeId (ip_address @ '':'' @ Itoa port)
                                 backendSetName loadBalancerId)"
      by blast
  qed (auto simp: ID_def)
qed

lemma Itoa_8080: "Itoa 8080 = ''8080''"
  by (simp add: Itoa_def)

lemma composite_example:
  "getBackendCompositeId ''10.0.0.3:8080'' ''bs1'' ''lb1''
     = ''loadBalancers/lb1/backendSets/bs1/backends/10.0.0.3:8080''"
  by code_simp

theorem ID_cases_witness:
  "conforms (D example_crud)
   \<and> ID example_crud = Returns ''''
   \<and> ID (example_crud\<lparr>WorkRequest :=
            Some (GetWorkRequestResponse.WorkRequest
                    (example_work_request WorkRequestLifecycleStateInProgress))\<rparr>)
       = Returns ''ocid1.loadbalancerworkrequest.oc1..w1''
   \<and> ID (example_crud\<lparr>WorkRequest :=
            Some (GetWorkRequestResponse.WorkRequest
                    (example_work_request WorkRequestLifecycleStateSucceeded))\<rparr>)
       = Returns ''loadBalancers/lb1/backendSets/bs1/backends/10.0.0.3:8080''"
proof -
  have c: "conforms (D example_crud)" by (rule conforms_example)
  have 1: "ID example_crud = Returns ''''"
    using ID_cases [OF c] by (simp add: example_crud_def)
  have 2: "ID (example_crud\<lparr>WorkRequest :=
            Some (GetWorkRequestResponse.WorkRequest
                    (example_work_request WorkRequestLifecycleStateInProgress))\<rparr>)
       = Returns ''ocid1.loadbalancerworkrequest.oc1..w1''"
    by (simp add: ID_def example_defs lifecycle_defs)
  have 3: "ID (example_crud\<lparr>WorkRequest :=
            Some (GetWorkRequestResponse.WorkRequest
                    (example_work_request WorkRequestLifecycleStateSucceeded))\<rparr>)
       = Returns ''loadBalancers/lb1/backendSets/bs1/backends/10.0.0.3:8080''"
    by (simp add: ID_def buildID_def getter_defs example_defs lifecycle_defs Itoa_8080
          composite_example)
  show ?thesis by (intro conjI) (rule c 1 2 3)+
qed

section \<open>Further properties of \<open>Create\<close> and \<open>Delete\<close>\<close>

text \<open>
  When the current identifier contains the work request prefix, \<open>Delete\<close> returns
  \<open>nil\<close> at once: it calls nothing and changes nothing.
\<close>

theorem Delete_of_work_request_id:
  "Contains (D_Id (D s)) ''ocid1.loadbalancerworkrequest'' \<Longrightarrow> Delete fuel s h = (Returns None, s, h)"
  by (simp add: Delete_def)

theorem Delete_of_work_request_id_witness:
  "Contains (D_Id (D (example_crud\<lparr>D := D_SetId example_data ''ocid1.loadbalancerworkrequest.oc1..w1''\<rparr>)))
     ''ocid1.loadbalancerworkrequest''
   \<and> Delete 5 (example_crud\<lparr>D := D_SetId example_data ''ocid1.loadbalancerworkrequest.oc1..w1''\<rparr>) []
     = (Returns None, example_crud\<lparr>D := D_SetId example_data ''ocid1.loadbalancerworkrequest.oc1..w1''\<rparr>, [])"
proof -
  have c: "Contains (D_Id (D (example_crud\<lparr>D := D_SetId example_data ''ocid1.loadbalancerworkrequest.oc1..w1''\<rparr>)))
     ''ocid1.loadbalancerworkrequest''"
    by (simp add: D_Id_def D_SetId_def)
  from Delete_of_work_request_id [OF c, of 5 "[]"] c show ?thesis by (rule conjI [rotated])
qed

text \<open>
  When \<open>CreateBackend\<close> fails, \<open>Create\<close> returns its error and makes no further call.
\<close>

theorem Create_returns_error_of_CreateBackend:
  "Create_request s = Returns request
   \<Longrightarrow> CreateBackend (Client s) h request = (response, Some e)
   \<Longrightarrow> Create fuel s h = (Returns (Some e), s, h @ [CallCreateBackend request])"
  by (simp add: Create_def Let_def)

theorem Create_returns_error_of_CreateBackend_witness:
  "Create_request (example_crud\<lparr>Client := rejecting_client\<rparr>)
     = Returns \<lparr>CreateBackendRequest.BackendSetName = Some ''bs1'', Backup = Some False, Drain = None,
                IpAddress = Some ''10.0.0.3'', LoadBalancerId = Some ''lb1'', Offline = None,
                Port = Some 8080, Weight = None,
                RetryPolicy = getRetryPolicy False ''load_balancer''\<rparr>
   \<and> Create 5 (example_crud\<lparr>Client := rejecting_client\<rparr>) []
     = (Returns (Some (ServiceError ''CreateBackend: 409 Conflict'')),
        example_crud\<lparr>Client := rejecting_client\<rparr>,
        [CallCreateBackend
           \<lparr>CreateBackendRequest.BackendSetName = Some ''bs1'', Backup = Some False, Drain = None,
            IpAddress = Some ''10.0.0.3'', LoadBalancerId = Some ''lb1'', Offline = None,
            Port = Some 8080, Weight = None,
            RetryPolicy = getRetryPolicy False ''load_balancer''\<rparr>])"
proof -
  let ?s = "example_crud\<lparr>Client := rejecting_client\<rparr>"
  let ?request = "\<lparr>CreateBackendRequest.BackendSetName = Some ''bs1'', Backup = Some False, Drain = None,
                IpAddress = Some ''10.0.0.3'', LoadBalancerId = Some ''lb1'', Offline = None,
                Port = Some 8080, Weight = None,
                RetryPolicy = getRetryPolicy False ''load_balancer''\<rparr>"
  have r: "Create_request ?s = Returns ?request"
    by (simp add: Create_request_def getter_defs example_defs)
  have c: "CreateBackend (Client ?s) [] ?request
             = (\<lparr>CreateBackendResponse.OpcWorkRequestId = None\<rparr>,
                Some (ServiceError ''CreateBackend: 409 Conflict''))"
    by (simp add: rejecting_client_def)
  from Create_returns_error_of_CreateBackend [OF r c, of 5]
  have "Create 5 ?s [] = (Returns (Some (ServiceError ''CreateBackend: 409 Conflict'')), ?s,
          [CallCreateBackend ?request])"
    by simp
  with r show ?thesis by (rule conjI)
qed

end
